theory Spec2Isabelle
  imports Complex_Main "HOL-Library.AList" "HOL-Library.Product_Lexorder"
begin

section \<open>Python values used by the quiz bots\<close>

text \<open>
  The four bot variants (\<^verbatim>\<open>Original.py\<close>, \<^verbatim>\<open>Lifechanger.py\<close>, \<^verbatim>\<open>simple_bot.py\<close>,
  \<^verbatim>\<open>Simple_bot.py\<close>) keep a running quiz in nested Python dictionaries. A dictionary is
  modelled as an association list in insertion order: \<open>AList.update\<close> replaces the value of
  a key that is present (keeping its position) and appends a new key at the end, which is
  what assignment \<^verbatim>\<open>d[k] = v\<close> does; \<open>map_of\<close> is \<^verbatim>\<open>d.get(k)\<close>. Python integers are \<open>int\<close>,
  list positions are \<open>nat\<close>. A Python float is the rational number it denotes, and every
  operation that returns a float rounds its exact result to the nearest double (\<open>fl\<close>
  below). Strings are byte strings (UTF-8).
\<close>

subsection \<open>Rendering numbers: \<^verbatim>\<open>str(n)\<close> and the format specs \<^verbatim>\<open>:.1f\<close>, \<^verbatim>\<open>:.2f\<close>\<close>

definition digit_char :: "nat \<Rightarrow> char" where
  "digit_char n = ''0123456789'' ! n"

function str_nat :: "nat \<Rightarrow> string" where
  "str_nat n = (if n < 10 then [digit_char n] else str_nat (n div 10) @ [digit_char (n mod 10)])"
  by pat_completeness auto
termination
  by (relation "measure (\<lambda>n. n)") auto

declare str_nat.simps [simp del]

definition str_int :: "int \<Rightarrow> string" where
  "str_int i = (if i < 0 then ''-'' @ str_nat (nat (- i)) else str_nat (nat i))"

text \<open>Python formats a float to a fixed number of decimals by rounding the exact value
  to nearest, ties to even.\<close>

definition round_half_even :: "rat \<Rightarrow> int" where
  "round_half_even x =
     (let f = \<lfloor>x\<rfloor>; r = x - of_int f
      in if r < 1 / 2 then f
         else if 1 / 2 < r then f + 1
         else if even f then f else f + 1)"

definition zero_pad :: "nat \<Rightarrow> string \<Rightarrow> string" where
  "zero_pad d s = replicate (d - length s) (CHR ''0'') @ s"

definition fmt_fixed :: "nat \<Rightarrow> rat \<Rightarrow> string" where
  "fmt_fixed d x =
     (let m = nat (round_half_even (\<bar>x\<bar> * 10 ^ d))
      in (if x < 0 then ''-'' else '''')
         @ str_nat (m div 10 ^ d)
         @ (if d = 0 then '''' else ''.'' @ zero_pad d (str_nat (m mod 10 ^ d))))"

subsection \<open>Floats\<close>

text \<open>
  A Python float is an IEEE 754 double: a number \<open>m * 2 ^ e\<close> with \<open>\<bar>m\<bar> < 2 ^ 53\<close>. An
  operation whose result is a float (also the division \<^verbatim>\<open>/\<close> of two integers and the
  conversion of an integer) returns the double nearest to the exact result, a tie going
  to the even \<open>m\<close>. \<open>fl\<close> is that rounding. \<open>exponent x\<close> is the \<open>e\<close> with
  \<open>2 ^ e \<le> \<bar>x\<bar> < 2 ^ (e + 1)\<close>, found from the bit lengths (\<^verbatim>\<open>int.bit_length\<close>) of the
  numerator and the denominator of \<open>x\<close>. Overflow and the subnormal numbers are not
  modelled: the floats of the bots are quarter points, counts of list elements and
  percentages of those, all inside the normal range of a double.
\<close>

function bit_length :: "int \<Rightarrow> int" where
  "bit_length k = (if k \<le> 0 then 0 else bit_length (k div 2) + 1)"
  by pat_completeness auto
termination
  by (relation "measure nat") auto

declare bit_length.simps [simp del]

definition pow2 :: "int \<Rightarrow> rat" where
  "pow2 k = (if 0 \<le> k then 2 ^ nat k else 1 / 2 ^ nat (- k))"

definition exponent :: "rat \<Rightarrow> int" where
  "exponent x =
     (let p = fst (quotient_of \<bar>x\<bar>); q = snd (quotient_of \<bar>x\<bar>);
          d = bit_length p - bit_length q
      in if pow2 d \<le> \<bar>x\<bar> then d else d - 1)"

definition fl :: "rat \<Rightarrow> rat" where
  "fl x = (if x = 0 then 0
           else let ulp = pow2 (exponent x - 52)
                in of_int (round_half_even (x / ulp)) * ulp)"

subsection \<open>\<^verbatim>\<open>sorted(items, key=k, reverse=True)\<close>\<close>

text \<open>CPython keeps a reversed sort stable by reversing the list, sorting it stably in
  ascending order of the key, and reversing the result.\<close>

definition sorted_reverse :: "('a \<Rightarrow> 'k::linorder) \<Rightarrow> 'a list \<Rightarrow> 'a list" where
  "sorted_reverse k xs = rev (sort_key k (rev xs))"

section \<open>The data model of \<^verbatim>\<open>Original.py\<close> and \<^verbatim>\<open>Lifechanger.py\<close>\<close>

text \<open>A question of the bank: the dictionary with keys \<^verbatim>\<open>id\<close>, \<^verbatim>\<open>question\<close>,
  \<^verbatim>\<open>options\<close>, \<^verbatim>\<open>answer\<close>, \<^verbatim>\<open>category\<close> that \<^verbatim>\<open>add_question\<close> stores.\<close>

record question =
  q_id :: int
  q_question :: string
  q_options :: "string list"
  q_answer :: int
  q_category :: string

text \<open>A Telegram user as delivered with an update; \<^verbatim>\<open>username\<close> may be \<^verbatim>\<open>None\<close>.\<close>

record tg_user =
  u_id :: int
  u_first_name :: string
  u_username :: "string option"

text \<open>An entry of \<^verbatim>\<open>quiz['participants']\<close>. The key \<^verbatim>\<open>negative_points\<close> exists only in
  \<^verbatim>\<open>Lifechanger.py\<close> and only once the participant has given a wrong answer; \<open>None\<close> is
  the absent key.\<close>

record participant =
  p_name :: string
  p_username :: "string option"
  p_correct :: int
  p_answered :: int
  p_negative_points :: "rat option"

text \<open>An entry of \<^verbatim>\<open>poll_info['answers']\<close>, keyed by the user id.\<close>

record answer_data =
  a_option_id :: "int option"
  a_is_correct :: bool
  a_user_name :: string
  a_username :: "string option"

text \<open>An entry of \<^verbatim>\<open>quiz['sent_polls']\<close>, keyed by \<^verbatim>\<open>str(poll.id)\<close>. The keys
  \<^verbatim>\<open>message_id\<close> and \<^verbatim>\<open>poll_id\<close> are written but never read by the functions modelled
  here and are left out.\<close>

record poll_info =
  pi_question_index :: nat
  pi_answers :: "(int \<times> answer_data) list"

text \<open>The dictionary \<^verbatim>\<open>context.user_data['quiz']\<close> with its creator. The keys \<^verbatim>\<open>scores\<close>
  (never used) and \<^verbatim>\<open>chat_id\<close> (the chat the messages go to) are left out: the model
  records what is sent, not where.\<close>

record creator =
  c_id :: int
  c_name :: string
  c_username :: "string option"

record quiz =
  questions :: "question list"
  current_index :: nat
  participants :: "(int \<times> participant) list"
  active :: bool
  sent_polls :: "(string \<times> poll_info) list"
  creator :: "creator option"

datatype py_error = AttributeError

text \<open>The glyphs of the result message, as the UTF-8 bytes found in each source file.\<close>

definition flag_O :: string where
  "flag_O = [CHR 0xF0, CHR 0x9F, CHR 0x8F, CHR 0x81]"

definition trophy_O :: string where
  "trophy_O = [CHR 0xF0, CHR 0x9F, CHR 0x8F, CHR 0x86]"

definition medals_O :: "string list" where
  "medals_O = [[CHR 0xF0, CHR 0x9F, CHR 0xA5, CHR 0x87],
               [CHR 0xF0, CHR 0x9F, CHR 0xA5, CHR 0x88],
               [CHR 0xF0, CHR 0x9F, CHR 0xA5, CHR 0x89]]"

definition glyph_L :: string where
  "glyph_L = [CHR 0xEF, CHR 0xA3, CHR 0xBF, CHR 0xC3, CHR 0xBC]"

definition flag_L :: string where
  "flag_L = glyph_L @ [CHR 0xC3, CHR 0xA8, CHR 0xC3, CHR 0x85]"

definition trophy_L :: string where
  "trophy_L = glyph_L @ [CHR 0xC3, CHR 0xA8, CHR 0xC3, CHR 0x9C]"

definition chart_L :: string where
  "chart_L = glyph_L @ [CHR 0xC3, CHR 0xAC, CHR 0xC3, CHR 0xA4]"

definition medals_L :: "string list" where
  "medals_L = [glyph_L @ [CHR 0xE2, CHR 0x80, CHR 0xA2, CHR 0xC3, CHR 0xA1],
               glyph_L @ [CHR 0xE2, CHR 0x80, CHR 0xA2, CHR 0xC3, CHR 0xA0],
               glyph_L @ [CHR 0xE2, CHR 0x80, CHR 0xA2, CHR 0xC3, CHR 0xA2]]"

text \<open>\<^verbatim>\<open>rank_emoji = [..][i] if i < 3 else f"{i+1}."\<close>\<close>

definition rank_emoji :: "string list \<Rightarrow> nat \<Rightarrow> string" where
  "rank_emoji medals i = (if i < 3 then medals ! i else str_nat (i + 1) @ ''.'')"

text \<open>The username in parentheses after an at sign when \<^verbatim>\<open>username\<close> is truthy, else
  the empty string: \<^verbatim>\<open>None\<close> and the empty string are both falsy.\<close>

definition username_text :: "string option \<Rightarrow> string" where
  "username_text username =
     (case username of None \<Rightarrow> ''''
      | Some u \<Rightarrow> if u = '''' then '''' else '' (@'' @ u @ '')'')"

definition nl :: string where
  "nl = [CHR 0x0A]"

text \<open>\<^verbatim>\<open>if k not in d: d[k] = v\<close>\<close>

definition init_if_absent :: "'k \<Rightarrow> 'v \<Rightarrow> ('k \<times> 'v) list \<Rightarrow> ('k \<times> 'v) list" where
  "init_if_absent k v d = (if k \<in> fst ` set d then d else AList.update k v d)"

section \<open>\<^verbatim>\<open>Original.py\<close>\<close>

subsection \<open>\<^verbatim>\<open>start_quiz\<close>: choosing the questions\<close>

text \<open>
  The words after \<^verbatim>\<open>/quiz\<close> are classified by the tests of the loop: \<^verbatim>\<open>arg.isdigit()\<close>,
  \<^verbatim>\<open>arg.startswith('id=')\<close>, \<^verbatim>\<open>arg.startswith('start=')\<close>. Each carries the result of the
  conversion \<^verbatim>\<open>int(...)\<close> the branch performs, \<open>None\<close> when the conversion raises
  \<^verbatim>\<open>ValueError\<close>. In the two \<^verbatim>\<open>=\<close> branches the exception is caught; in the digit branch
  it is not (\<^verbatim>\<open>isdigit\<close> accepts characters such as superscript digits that \<^verbatim>\<open>int\<close>
  rejects). The chat replies of \<^verbatim>\<open>start_quiz\<close> are not modelled.
\<close>

datatype quiz_arg =
  DigitArg "nat option"
| IdArg "int option"
| StartArg "int option"
| OtherArg

datatype start_error = IntValueError | SampleValueError | IndexError

record quiz_opts =
  num_questions :: nat
  start_id :: "int option"
  specific_id :: "int option"

fun parse_arg :: "quiz_opts \<Rightarrow> quiz_arg \<Rightarrow> start_error + quiz_opts" where
  "parse_arg st (DigitArg None) = Inl IntValueError"
| "parse_arg st (DigitArg (Some n)) = Inr (st\<lparr>num_questions := min n 10\<rparr>)"
| "parse_arg st (IdArg None) = Inr st"
| "parse_arg st (IdArg (Some i)) = Inr (st\<lparr>specific_id := Some i\<rparr>)"
| "parse_arg st (StartArg None) = Inr st"
| "parse_arg st (StartArg (Some i)) = Inr (st\<lparr>start_id := Some i\<rparr>)"
| "parse_arg st OtherArg = Inr st"

fun parse_args :: "quiz_opts \<Rightarrow> quiz_arg list \<Rightarrow> start_error + quiz_opts" where
  "parse_args st [] = Inr st"
| "parse_args st (a # as) =
     (case parse_arg st a of Inl e \<Rightarrow> Inl e | Inr st' \<Rightarrow> parse_args st' as)"

text \<open>
  \<^verbatim>\<open>random.sample(population, k)\<close> raises \<^verbatim>\<open>ValueError\<close> when the sample is larger than
  the population. Otherwise it returns \<open>k\<close> elements at distinct positions, decided by
  the draws \<open>ds\<close> of the random generator: a draw \<open>d\<close> stands for the result \<open>d mod m\<close> of
  a call \<^verbatim>\<open>randbelow(m)\<close>. CPython has two loops and chooses by the size of the
  population. When the population has at most \<^verbatim>\<open>setsize\<close> elements (21, plus
  \<^verbatim>\<open>4 ** ceil(log(k * 3, 4))\<close> when \<open>k > 5\<close>), each draw picks a position of the
  remaining pool, whose last element then fills the gap (\<open>sample_from\<close>). For a larger
  population each draw picks a position of the whole population and is repeated while it
  hits a position selected before (\<open>sample_by_rejection\<close>). The generator never runs out
  of draws; a list \<open>ds\<close> that ends is continued with position 0 in the first loop and with
  the least position not selected yet in the second, so that the second loop ends too
  (in CPython it ends with probability one). \<open>ceil_log4 m\<close> is the least \<open>e\<close> with
  \<open>m \<le> 4 ^ e\<close>.
\<close>

fun sample_from :: "nat list \<Rightarrow> 'a list \<Rightarrow> nat \<Rightarrow> 'a list" where
  "sample_from ds pool 0 = []"
| "sample_from ds pool (Suc k) =
     (let j = (case ds of [] \<Rightarrow> 0 | d # _ \<Rightarrow> d mod length pool)
      in pool ! j # sample_from (tl ds) (butlast (pool[j := last pool])) k)"

fun next_position :: "nat list \<Rightarrow> nat \<Rightarrow> nat list \<Rightarrow> nat \<times> nat list" where
  "next_position [] n selected =
     (case filter (\<lambda>j. j \<notin> set selected) [0..<n] of [] \<Rightarrow> (0, []) | j # _ \<Rightarrow> (j, []))"
| "next_position (d # ds) n selected =
     (if d mod n \<in> set selected then next_position ds n selected else (d mod n, ds))"

fun sample_by_rejection :: "nat list \<Rightarrow> 'a list \<Rightarrow> nat list \<Rightarrow> nat \<Rightarrow> 'a list" where
  "sample_by_rejection ds population selected 0 = []"
| "sample_by_rejection ds population selected (Suc k) =
     (let found = next_position ds (length population) selected
      in population ! fst found
         # sample_by_rejection (snd found) population (fst found # selected) k)"

function ceil_log4 :: "nat \<Rightarrow> nat" where
  "ceil_log4 m = (if m \<le> 1 then 0 else Suc (ceil_log4 ((m + 3) div 4)))"
  by pat_completeness auto
termination
  by (relation "measure (\<lambda>m. m)") auto

declare ceil_log4.simps [simp del]

definition setsize :: "nat \<Rightarrow> nat" where
  "setsize k = (if 5 < k then 21 + 4 ^ ceil_log4 (k * 3) else 21)"

definition random_sample :: "nat list \<Rightarrow> 'a list \<Rightarrow> nat \<Rightarrow> start_error + 'a list" where
  "random_sample ds population k =
     (if length population < k then Inl SampleValueError
      else if length population \<le> setsize k then Inr (sample_from ds population k)
      else Inr (sample_by_rejection ds population [] k))"

text \<open>The three cases of \<^verbatim>\<open>start_quiz\<close>. \<open>find_index\<close> is the loop that looks for the
  first question whose id is at least \<^verbatim>\<open>start_id\<close>.\<close>

fun find_index :: "('a \<Rightarrow> bool) \<Rightarrow> 'a list \<Rightarrow> nat option" where
  "find_index P [] = None"
| "find_index P (x # xs) =
     (if P x then Some 0 else map_option Suc (find_index P xs))"

definition select_questions :: "question list \<Rightarrow> quiz_opts \<Rightarrow> nat list \<Rightarrow> start_error + question list" where
  "select_questions bank opts draws =
     (case specific_id opts of
        Some sid \<Rightarrow>
          (case find (\<lambda>q. q_id q = sid) bank of
             Some target_question \<Rightarrow> Inr [target_question]
           | None \<Rightarrow> random_sample draws bank (min (num_questions opts) (length bank)))
      | None \<Rightarrow>
          (case start_id opts of
             Some sid \<Rightarrow>
               (let sorted_questions = sort_key q_id bank
                in case find_index (\<lambda>q. sid \<le> q_id q) sorted_questions of
                     Some start_index \<Rightarrow>
                       (let end_index = min (start_index + num_questions opts) (length sorted_questions);
                            selected_questions = take (end_index - start_index) (drop start_index sorted_questions)
                        in if selected_questions = [] then Inl IndexError else Inr selected_questions)
                   | None \<Rightarrow> random_sample draws bank (min (num_questions opts) (length bank)))
           | None \<Rightarrow> random_sample draws bank (min (num_questions opts) (length bank))))"

text \<open>\<^verbatim>\<open>start_quiz\<close> up to the point where the quiz is stored in
  \<^verbatim>\<open>context.user_data['quiz']\<close>; \<open>None\<close> is the return without a quiz when the bank is
  empty. It then calls \<^verbatim>\<open>send_next_question\<close>, modelled below.\<close>

definition start_quiz :: "question list \<Rightarrow> quiz_arg list \<Rightarrow> tg_user option \<Rightarrow> nat list \<Rightarrow> start_error + quiz option" where
  "start_quiz bank args effective_user draws =
     (if bank = [] then Inr None
      else case parse_args \<lparr>num_questions = 5, start_id = None, specific_id = None\<rparr> args of
             Inl e \<Rightarrow> Inl e
           | Inr opts \<Rightarrow>
               (case select_questions bank opts draws of
                  Inl e \<Rightarrow> Inl e
                | Inr selected_questions \<Rightarrow>
                    Inr (Some \<lparr>questions = selected_questions, current_index = 0,
                               participants = [], active = True, sent_polls = [],
                               creator = map_option (\<lambda>u. \<lparr>c_id = u_id u, c_name = u_first_name u,
                                                            c_username = u_username u\<rparr>) effective_user\<rparr>)))"

text \<open>The count a \<^verbatim>\<open>/quiz\<close> command requests: the value of its last numeric word, 5 when
  it has none. \<open>random_selection\<close> holds when \<^verbatim>\<open>start_quiz\<close> reaches one of its three
  calls of \<^verbatim>\<open>random.sample\<close>: no \<^verbatim>\<open>id=\<close> and no \<^verbatim>\<open>start=\<close> was given, or the one given
  matches no question.\<close>

fun last_count :: "nat \<Rightarrow> quiz_arg list \<Rightarrow> nat" where
  "last_count d [] = d"
| "last_count d (DigitArg (Some n) # as) = last_count n as"
| "last_count d (a # as) = last_count d as"

definition requested_count :: "quiz_arg list \<Rightarrow> nat" where
  "requested_count args = last_count 5 args"

definition random_selection :: "question list \<Rightarrow> quiz_opts \<Rightarrow> bool" where
  "random_selection bank opts =
     (case specific_id opts of
        Some sid \<Rightarrow> find (\<lambda>q. q_id q = sid) bank = None
      | None \<Rightarrow>
          (case start_id opts of
             Some sid \<Rightarrow> find_index (\<lambda>q. sid \<le> q_id q) (sort_key q_id bank) = None
           | None \<Rightarrow> True))"

subsection \<open>\<^verbatim>\<open>poll_answer\<close>: recording an answer\<close>

text \<open>
  The handler is called with an update and a context. It reads the answer from
  \<^verbatim>\<open>update.poll_answer\<close>, which is \<^verbatim>\<open>None\<close> in an update that carries no poll answer;
  reading \<^verbatim>\<open>poll_id\<close> of \<^verbatim>\<open>None\<close> raises \<^verbatim>\<open>AttributeError\<close>. It reads the data of all
  users from \<^verbatim>\<open>context.dispatcher.user_data\<close>. The attribute \<^verbatim>\<open>dispatcher\<close> belongs to
  the contexts of python-telegram-bot up to version 13. The contexts of version 20 and
  later, whose API the file imports (\<^verbatim>\<open>Application\<close>, \<^verbatim>\<open>filters\<close>) and builds the bot with
  (\<^verbatim>\<open>Application.builder()\<close>), have no such attribute: reading it raises
  \<^verbatim>\<open>AttributeError\<close>. A context is modelled by what \<^verbatim>\<open>context.dispatcher.user_data\<close>
  gives: \<open>None\<close> when the attribute is missing, else the mapping from the id of each
  user to that user's data, whose key \<^verbatim>\<open>quiz\<close> may be absent (\<open>None\<close>). The handler
  searches the mapping, in order, for an active quiz whose \<^verbatim>\<open>sent_polls\<close> has the poll
  id of the answer. The persistent per-user statistics written through
  \<^verbatim>\<open>get_user_data\<close> and \<^verbatim>\<open>update_user_data\<close> (the score ledger) are outside the model.
\<close>

type_synonym user_data = "(int \<times> quiz option) list"

text \<open>The object \<^verbatim>\<open>update.poll_answer\<close>, and the two kinds of update that concern a
  poll: the new state of a poll (with the poll's id), and the answer of a user.\<close>

record tg_poll_answer =
  pa_poll_id :: string
  pa_user :: tg_user
  pa_option_ids :: "int list"

datatype tg_update =
  PollUpdate string
| PollAnswerUpdate tg_poll_answer

definition update_poll_answer :: "tg_update \<Rightarrow> tg_poll_answer option" where
  "update_poll_answer update =
     (case update of PollUpdate _ \<Rightarrow> None | PollAnswerUpdate answer \<Rightarrow> Some answer)"

record callback_context =
  dispatcher :: "user_data option"

text \<open>The context an \<^verbatim>\<open>Application\<close> passes to its handlers.\<close>

definition application_context :: callback_context where
  "application_context = \<lparr>dispatcher = None\<rparr>"

definition has_poll :: "string \<Rightarrow> int \<times> quiz option \<Rightarrow> bool" where
  "has_poll poll_id entry =
     (case snd entry of
        None \<Rightarrow> False
      | Some quiz \<Rightarrow> active quiz \<and> poll_id \<in> fst ` set (sent_polls quiz))"

text \<open>\<^verbatim>\<open>answer.option_ids and answer.option_ids[0] == correct_answer\<close>\<close>

definition is_correct :: "int list \<Rightarrow> int \<Rightarrow> bool" where
  "is_correct option_ids correct_answer =
     (case option_ids of [] \<Rightarrow> False | c # _ \<Rightarrow> c = correct_answer)"

definition new_participant :: "string \<Rightarrow> string option \<Rightarrow> participant" where
  "new_participant name username =
     \<lparr>p_name = name, p_username = username, p_correct = 0, p_answered = 0,
      p_negative_points = None\<rparr>"

definition get_poll_info :: "quiz \<Rightarrow> string \<Rightarrow> poll_info" where
  "get_poll_info quiz poll_id =
     (case map_of (sent_polls quiz) poll_id of
        None \<Rightarrow> \<lparr>pi_question_index = 0, pi_answers = []\<rparr>
      | Some poll_info \<Rightarrow> poll_info)"

definition store_answer :: "quiz \<Rightarrow> string \<Rightarrow> tg_user \<Rightarrow> int list \<Rightarrow> int \<Rightarrow> (string \<times> poll_info) list" where
  "store_answer quiz poll_id user option_ids correct_answer =
     (let poll_info = get_poll_info quiz poll_id;
          answer = \<lparr>a_option_id = (case option_ids of [] \<Rightarrow> None | c # _ \<Rightarrow> Some c),
                    a_is_correct = is_correct option_ids correct_answer,
                    a_user_name = u_first_name user,
                    a_username = u_username user\<rparr>
      in AList.update poll_id
           (poll_info\<lparr>pi_answers := AList.update (u_id user) answer (pi_answers poll_info)\<rparr>)
           (sent_polls quiz))"

text \<open>The body of \<^verbatim>\<open>poll_answer\<close> once the quiz is found, in \<^verbatim>\<open>Original.py\<close>.\<close>

definition record_answer_O :: "quiz \<Rightarrow> string \<Rightarrow> tg_user \<Rightarrow> int list \<Rightarrow> quiz" where
  "record_answer_O active_quiz poll_id user option_ids =
     (let question_index = pi_question_index (get_poll_info active_quiz poll_id)
      in if question_index < length (questions active_quiz) then
           (let correct_answer = q_answer (questions active_quiz ! question_index);
                user_id = u_id user;
                ps0 = participants active_quiz;
                ps1 = init_if_absent user_id (new_participant (u_first_name user) (u_username user)) ps0;
                ps2 = AList.map_entry user_id (\<lambda>p. p\<lparr>p_answered := p_answered p + 1\<rparr>) ps1;
                ps3 = (if is_correct option_ids correct_answer
                       then AList.map_entry user_id (\<lambda>p. p\<lparr>p_correct := p_correct p + 1\<rparr>) ps2
                       else ps2)
            in active_quiz\<lparr>participants := ps3,
                             sent_polls := store_answer active_quiz poll_id user option_ids correct_answer\<rparr>)
         else active_quiz)"

text \<open>The handler from its search on, as a change of the data of all users.\<close>

definition search_and_record_O :: "user_data \<Rightarrow> string \<Rightarrow> tg_user \<Rightarrow> int list \<Rightarrow> user_data" where
  "search_and_record_O all_user_data poll_id user option_ids =
     (case find (has_poll poll_id) all_user_data of
        None \<Rightarrow> all_user_data
      | Some (found_user_id, None) \<Rightarrow> all_user_data
      | Some (found_user_id, Some active_quiz) \<Rightarrow>
          AList.update found_user_id
            (Some (record_answer_O active_quiz poll_id user option_ids)) all_user_data)"

text \<open>The handler: the exception it ends with, or the data of all users as it leaves
  them.\<close>

definition poll_answer_O :: "tg_update \<Rightarrow> callback_context \<Rightarrow> py_error + user_data" where
  "poll_answer_O update ctx =
     (case update_poll_answer update of
        None \<Rightarrow> Inl AttributeError
      | Some answer \<Rightarrow>
          (case dispatcher ctx of
             None \<Rightarrow> Inl AttributeError
           | Some all_user_data \<Rightarrow>
               Inr (search_and_record_O all_user_data (pa_poll_id answer) (pa_user answer)
                      (pa_option_ids answer))))"

subsection \<open>\<^verbatim>\<open>end_quiz\<close>: compiling the results\<close>

text \<open>The quiz's table of participants is rebuilt from the answers stored with the
  polls: the two nested loops over \<^verbatim>\<open>sent_polls\<close> and each poll's \<^verbatim>\<open>answers\<close>.\<close>

definition rebuild_entry :: "(int \<times> participant) list \<Rightarrow> int \<times> answer_data \<Rightarrow> (int \<times> participant) list" where
  "rebuild_entry ps entry =
     (let user_id = fst entry; answer_data = snd entry;
          ps1 = init_if_absent user_id (new_participant (a_user_name answer_data) (a_username answer_data)) ps;
          ps2 = AList.map_entry user_id (\<lambda>p. p\<lparr>p_answered := p_answered p + 1\<rparr>) ps1
      in if a_is_correct answer_data
         then AList.map_entry user_id (\<lambda>p. p\<lparr>p_correct := p_correct p + 1\<rparr>) ps2
         else ps2)"

definition rebuild_participants :: "(string \<times> poll_info) list \<Rightarrow> (int \<times> participant) list" where
  "rebuild_participants polls =
     fold (\<lambda>poll ps. fold (\<lambda>entry ps. rebuild_entry ps entry) (pi_answers (snd poll)) ps) polls []"

text \<open>The fallback when no answer was recorded: the creator of the quiz, when the quiz
  has one with a truthy (non-zero) id, is credited with every question.\<close>

definition creator_fallback :: "quiz \<Rightarrow> (int \<times> participant) list \<Rightarrow> (int \<times> participant) list" where
  "creator_fallback quiz ps =
     (if ps = [] then
        (case creator quiz of
           None \<Rightarrow> ps
         | Some c \<Rightarrow>
             if c_id c \<noteq> 0 then
               [(c_id c, \<lparr>p_name = c_name c, p_username = c_username c,
                          p_correct = int (length (questions quiz)),
                          p_answered = int (length (questions quiz)),
                          p_negative_points = None\<rparr>)]
             else ps)
      else ps)"

definition final_participants :: "quiz \<Rightarrow> (int \<times> participant) list" where
  "final_participants quiz = creator_fallback quiz (rebuild_participants (sent_polls quiz))"

text \<open>The update passed to \<^verbatim>\<open>end_quiz\<close>: its \<^verbatim>\<open>effective_user\<close>, and its
  \<^verbatim>\<open>callback_query\<close>, which may be missing as an attribute, \<^verbatim>\<open>None\<close> (reading
  \<^verbatim>\<open>from_user\<close> then raises \<^verbatim>\<open>AttributeError\<close>), or a query with its \<^verbatim>\<open>from_user\<close>.\<close>

datatype callback_query = NoCallbackQuery | NullCallbackQuery | CallbackFrom "tg_user option"

record update_info =
  effective_user :: "tg_user option"
  callback :: callback_query

definition dummy_user_name :: "update_info \<Rightarrow> quiz \<Rightarrow> py_error + string" where
  "dummy_user_name update quiz =
     (case effective_user update of
        Some u \<Rightarrow> Inr (u_first_name u)
      | None \<Rightarrow>
          (case callback update of
             NullCallbackQuery \<Rightarrow> Inl AttributeError
           | CallbackFrom (Some u) \<Rightarrow> Inr (u_first_name u)
           | _ \<Rightarrow>
               (case creator quiz of
                  None \<Rightarrow> Inr ''Unknown User''
                | Some c \<Rightarrow> if c_name c \<noteq> '''' then Inr (c_name c) else Inr ''Unknown User'')))"

definition dummy_message :: "string \<Rightarrow> string \<Rightarrow> string \<Rightarrow> quiz \<Rightarrow> string \<Rightarrow> string" where
  "dummy_message flag trophy medal quiz user_name =
     (let questions_count = length (questions quiz);
          correct_count = length (filter (\<lambda>poll. pi_question_index (snd poll) < length (questions quiz))
                                     (sent_polls quiz))
      in flag @ '' The quiz has finished!'' @ nl @ nl
         @ str_nat questions_count @ '' questions answered'' @ nl @ nl
         @ trophy @ '' Congratulations to the winner: '' @ user_name @ ''!'' @ nl @ nl
         @ medal @ '' '' @ user_name @ '': '' @ str_nat correct_count @ ''/''
         @ str_nat questions_count @ '' (100.0%)'')"

text \<open>\<^verbatim>\<open>(correct / questions_count) * 100 if questions_count > 0 else 0\<close> for an
  integer \<^verbatim>\<open>correct\<close>: the quotient of the two integers is a float, and so is its
  product with 100.\<close>

definition percentage :: "int \<Rightarrow> nat \<Rightarrow> rat" where
  "percentage correct questions_count =
     (if 0 < questions_count
      then fl (fl (of_int correct / of_nat questions_count) * 100) else 0)"

definition result_line_O :: "nat \<Rightarrow> nat \<times> int \<times> participant \<Rightarrow> string" where
  "result_line_O questions_count row =
     (let i = fst row; data = snd (snd row); correct = p_correct data
      in rank_emoji medals_O i @ '' '' @ p_name data @ username_text (p_username data) @ '': ''
         @ str_int correct @ ''/'' @ str_nat questions_count
         @ '' ('' @ fmt_fixed 1 (percentage correct questions_count) @ ''%)'' @ nl)"

definition sort_key_O :: "int \<times> participant \<Rightarrow> int \<times> int" where
  "sort_key_O x = (p_correct (snd x), - p_answered (snd x))"

definition results_message_O :: "nat \<Rightarrow> (int \<times> participant) list \<Rightarrow> string" where
  "results_message_O questions_count sorted_ps =
     flag_O @ '' The quiz has finished!'' @ nl @ nl
     @ str_nat questions_count @ '' questions answered'' @ nl @ nl
     @ (case sorted_ps of
          [] \<Rightarrow> ''''
        | winner # _ \<Rightarrow>
            trophy_O @ '' Congratulations to the winner: '' @ p_name (snd winner) @ ''!'' @ nl @ nl
            @ concat (map (result_line_O questions_count) (enumerate 0 sorted_ps)))"

text \<open>What a call of \<^verbatim>\<open>end_quiz\<close> leaves behind: the quiz as stored in
  \<^verbatim>\<open>context.user_data\<close>, the text passed to \<^verbatim>\<open>send_message\<close> (if any), the sorted list
  of participants the text was built from, and the exception that ended the call (if
  any). The delivery of the message and the update of the per-user statistics that
  follows it are outside the model.\<close>

record end_result =
  quiz_after :: quiz
  sent_message :: "string option"
  ranking :: "(int \<times> participant) list"
  raised :: "py_error option"

definition end_quiz_O :: "update_info \<Rightarrow> quiz \<Rightarrow> end_result" where
  "end_quiz_O update quiz0 =
     (if \<not> active quiz0
      then \<lparr>quiz_after = quiz0, sent_message = None, ranking = [], raised = None\<rparr>
      else
        (let ps = final_participants quiz0;
             quiz = quiz0\<lparr>active := False, participants := ps\<rparr>
         in if ps = [] then
              (case dummy_user_name update quiz of
                 Inl e \<Rightarrow> \<lparr>quiz_after = quiz, sent_message = None, ranking = [], raised = Some e\<rparr>
               | Inr user_name \<Rightarrow>
                   \<lparr>quiz_after = quiz,
                    sent_message = Some (dummy_message flag_O trophy_O (medals_O ! 0) quiz user_name),
                    ranking = [], raised = None\<rparr>)
            else
              (let sorted_ps = sorted_reverse sort_key_O ps
               in \<lparr>quiz_after = quiz,
                   sent_message = Some (results_message_O (length (questions quiz)) sorted_ps),
                   ranking = sorted_ps, raised = None\<rparr>)))"

subsection \<open>\<^verbatim>\<open>send_next_question\<close>: one dispatch\<close>

text \<open>One call of \<^verbatim>\<open>send_next_question\<close> up to its sleep, as a change of the stored quiz:
  the creator is stored if the quiz has none and the update has a user with a truthy id;
  when every question has been sent the quiz is ended, otherwise the poll returned by
  Telegram (its id is \<open>poll_id\<close>) is registered with an empty answer table and the cursor
  advances. (A call of \<^verbatim>\<open>send_poll\<close> that fails raises before the quiz is changed and is
  not an event of the model.)\<close>

definition store_creator :: "update_info \<Rightarrow> quiz \<Rightarrow> quiz" where
  "store_creator update quiz =
     (case effective_user update of
        None \<Rightarrow> quiz
      | Some u \<Rightarrow>
          if u_id u \<noteq> 0 \<and> creator quiz = None
          then quiz\<lparr>creator := Some \<lparr>c_id = u_id u, c_name = u_first_name u, c_username = u_username u\<rparr>\<rparr>
          else quiz)"

definition send_next_question :: "update_info \<Rightarrow> quiz \<Rightarrow> string \<Rightarrow> quiz" where
  "send_next_question update quiz0 poll_id =
     (let quiz = store_creator update quiz0
      in if length (questions quiz) \<le> current_index quiz then
           quiz_after (end_quiz_O update quiz)
         else
           quiz\<lparr>sent_polls := AList.update poll_id
                                  \<lparr>pi_question_index = current_index quiz, pi_answers = []\<rparr>
                                  (sent_polls quiz),
                current_index := current_index quiz + 1\<rparr>)"

subsection \<open>\<^verbatim>\<open>main\<close>: how the answer handler is reached\<close>

text \<open>
  \<^verbatim>\<open>main\<close> builds the bot with \<^verbatim>\<open>Application.builder()\<close> and registers the handler with
  \<^verbatim>\<open>application.add_handler(PollHandler(poll_answer))\<close>. A \<^verbatim>\<open>PollHandler\<close> passes the
  updates that carry a poll (the new state of a poll the bot has sent, which Telegram
  sends when a vote changes it). An update that carries the answer of a user is passed
  by a \<^verbatim>\<open>PollAnswerHandler\<close>; \<^verbatim>\<open>simple_bot.py\<close> registers one, \<^verbatim>\<open>Original.py\<close> and
  \<^verbatim>\<open>Lifechanger.py\<close> do not, and none of their other handlers (for commands, messages,
  callback queries and conversations) takes such an update. The handler gets a context
  of the application. \<open>on_update handler w update\<close> is what an incoming update does
  under this registration: the data of all users after it, and the exception the handler
  ends with, if any (the application logs it).
\<close>

definition poll_handler_accepts :: "tg_update \<Rightarrow> bool" where
  "poll_handler_accepts update \<longleftrightarrow>
     (case update of PollUpdate _ \<Rightarrow> True | PollAnswerUpdate _ \<Rightarrow> False)"

definition on_update :: "(tg_update \<Rightarrow> callback_context \<Rightarrow> py_error + user_data) \<Rightarrow> user_data \<Rightarrow> tg_update \<Rightarrow> user_data \<times> py_error option" where
  "on_update handler w update =
     (if poll_handler_accepts update then
        (case handler update application_context of
           Inl e \<Rightarrow> (w, Some e)
         | Inr w' \<Rightarrow> (w', None))
      else (w, None))"

text \<open>A running bot interleaves dispatches and incoming updates.
  \<open>NextQuestion owner update poll_id\<close> is a call of \<^verbatim>\<open>send_next_question\<close> in the context
  of the user \<open>owner\<close> (who has a stored quiz: the function is called by \<^verbatim>\<open>start_quiz\<close>
  after storing it, and by itself); \<open>Incoming update\<close> is an update about a poll that
  reaches the application.\<close>

datatype event =
  NextQuestion int update_info string
| Incoming tg_update

fun step_O :: "user_data \<Rightarrow> event \<Rightarrow> user_data" where
  "step_O w (NextQuestion owner update poll_id) =
     (case map_of w owner of
        Some (Some quiz) \<Rightarrow> AList.update owner (Some (send_next_question update quiz poll_id)) w
      | _ \<Rightarrow> w)"
| "step_O w (Incoming update) = fst (on_update poll_answer_O w update)"

definition run_O :: "user_data \<Rightarrow> event list \<Rightarrow> user_data" where
  "run_O w evs = fold (\<lambda>ev w. step_O w ev) evs w"

text \<open>A quiz as \<^verbatim>\<open>start_quiz\<close> stores it: nothing sent, nobody recorded.\<close>

definition fresh :: "quiz \<Rightarrow> bool" where
  "fresh quiz \<longleftrightarrow> current_index quiz = 0 \<and> participants quiz = [] \<and> sent_polls quiz = []"

section \<open>\<^verbatim>\<open>Lifechanger.py\<close>\<close>

text \<open>\<^verbatim>\<open>poll_answer\<close> differs from \<^verbatim>\<open>Original.py\<close> in the negative marking: an answer
  that is not correct adds 0.25 to the participant's \<^verbatim>\<open>negative_points\<close>, creating the
  key with 0 first. The sum is a float.\<close>

definition add_negative :: "participant \<Rightarrow> participant" where
  "add_negative p =
     p\<lparr>p_negative_points :=
         Some (fl ((case p_negative_points p of None \<Rightarrow> 0 | Some v \<Rightarrow> v) + 1 / 4))\<rparr>"

definition record_answer_L :: "quiz \<Rightarrow> string \<Rightarrow> tg_user \<Rightarrow> int list \<Rightarrow> quiz" where
  "record_answer_L active_quiz poll_id user option_ids =
     (let question_index = pi_question_index (get_poll_info active_quiz poll_id)
      in if question_index < length (questions active_quiz) then
           (let correct_answer = q_answer (questions active_quiz ! question_index);
                user_id = u_id user;
                ps0 = participants active_quiz;
                ps1 = init_if_absent user_id (new_participant (u_first_name user) (u_username user)) ps0;
                ps2 = AList.map_entry user_id (\<lambda>p. p\<lparr>p_answered := p_answered p + 1\<rparr>) ps1;
                ps3 = (if is_correct option_ids correct_answer
                       then AList.map_entry user_id (\<lambda>p. p\<lparr>p_correct := p_correct p + 1\<rparr>) ps2
                       else AList.map_entry user_id add_negative ps2)
            in active_quiz\<lparr>participants := ps3,
                             sent_polls := store_answer active_quiz poll_id user option_ids correct_answer\<rparr>)
         else active_quiz)"

definition search_and_record_L :: "user_data \<Rightarrow> string \<Rightarrow> tg_user \<Rightarrow> int list \<Rightarrow> user_data" where
  "search_and_record_L all_user_data poll_id user option_ids =
     (case find (has_poll poll_id) all_user_data of
        None \<Rightarrow> all_user_data
      | Some (found_user_id, None) \<Rightarrow> all_user_data
      | Some (found_user_id, Some active_quiz) \<Rightarrow>
          AList.update found_user_id
            (Some (record_answer_L active_quiz poll_id user option_ids)) all_user_data)"

definition poll_answer_L :: "tg_update \<Rightarrow> callback_context \<Rightarrow> py_error + user_data" where
  "poll_answer_L update ctx =
     (case update_poll_answer update of
        None \<Rightarrow> Inl AttributeError
      | Some answer \<Rightarrow>
          (case dispatcher ctx of
             None \<Rightarrow> Inl AttributeError
           | Some all_user_data \<Rightarrow>
               Inr (search_and_record_L all_user_data (pa_poll_id answer) (pa_user answer)
                      (pa_option_ids answer))))"

text \<open>\<^verbatim>\<open>end_quiz\<close> rebuilds the participants exactly as \<^verbatim>\<open>Original.py\<close> does, does not
  stop at an inactive quiz, and sorts and prints with the negative points it reads from
  the rebuilt table.\<close>

definition negative_points :: "participant \<Rightarrow> rat" where
  "negative_points data = (case p_negative_points data of None \<Rightarrow> 0 | Some v \<Rightarrow> v)"

text \<open>\<^verbatim>\<open>correct - negative_points\<close>: the difference of two integers when the key
  \<^verbatim>\<open>negative_points\<close> is absent (its default is the integer 0); otherwise the integer
  \<^verbatim>\<open>correct\<close> is converted to a float and the difference is a float.\<close>

definition adjusted_score :: "participant \<Rightarrow> rat" where
  "adjusted_score data =
     (case p_negative_points data of
        None \<Rightarrow> of_int (p_correct data)
      | Some v \<Rightarrow> fl (fl (of_int (p_correct data)) - v))"

text \<open>\<^verbatim>\<open>(adjusted_score / questions_count) * 100 if questions_count > 0 else 0\<close> for a
  float \<^verbatim>\<open>adjusted_score\<close>: the count is converted to a float, and the quotient and the
  product are floats.\<close>

definition percentage_adjusted :: "rat \<Rightarrow> nat \<Rightarrow> rat" where
  "percentage_adjusted score questions_count =
     (if 0 < questions_count
      then fl (fl (score / fl (of_nat questions_count)) * 100) else 0)"

definition sort_key_L :: "int \<times> participant \<Rightarrow> rat \<times> int" where
  "sort_key_L x = (adjusted_score (snd x), - p_answered (snd x))"

definition result_line_L :: "nat \<Rightarrow> nat \<times> int \<times> participant \<Rightarrow> string" where
  "result_line_L questions_count row =
     (let i = fst row; data = snd (snd row); correct = p_correct data;
          head = rank_emoji medals_L i @ '' '' @ p_name data @ username_text (p_username data) @ '': ''
      in if 0 < negative_points data then
           head @ str_int correct @ ''-'' @ fmt_fixed 2 (negative_points data)
           @ ''='' @ fmt_fixed 2 (adjusted_score data)
           @ ''/'' @ str_nat questions_count
           @ '' ('' @ fmt_fixed 1 (percentage_adjusted (adjusted_score data) questions_count) @ ''%)'' @ nl
         else
           head @ str_int correct @ ''/'' @ str_nat questions_count
           @ '' ('' @ fmt_fixed 1 (percentage correct questions_count) @ ''%)'' @ nl)"

definition results_message_L :: "nat \<Rightarrow> (int \<times> participant) list \<Rightarrow> string" where
  "results_message_L questions_count sorted_ps =
     flag_L @ '' The quiz has finished!'' @ nl @ nl
     @ str_nat questions_count @ '' questions answered'' @ nl @ nl
     @ (case sorted_ps of
          [] \<Rightarrow> ''''
        | winner # _ \<Rightarrow>
            trophy_L @ '' Congratulations to the winner: '' @ p_name (snd winner) @ ''!'' @ nl @ nl
            @ chart_L @ '' Final Rankings:'' @ nl @ nl
            @ concat (map (result_line_L questions_count) (enumerate 0 sorted_ps)))"

definition end_quiz_L :: "update_info \<Rightarrow> quiz \<Rightarrow> end_result" where
  "end_quiz_L update quiz0 =
     (let ps = final_participants quiz0;
          quiz = quiz0\<lparr>active := False, participants := ps\<rparr>
      in if ps = [] then
           (case dummy_user_name update quiz of
              Inl e \<Rightarrow> \<lparr>quiz_after = quiz, sent_message = None, ranking = [], raised = Some e\<rparr>
            | Inr user_name \<Rightarrow>
                \<lparr>quiz_after = quiz,
                 sent_message = Some (dummy_message flag_L trophy_L (medals_L ! 0) quiz user_name),
                 ranking = [], raised = None\<rparr>)
         else
           (let sorted_ps = sorted_reverse sort_key_L ps
            in \<lparr>quiz_after = quiz,
                sent_message = Some (results_message_L (length (questions quiz)) sorted_ps),
                ranking = sorted_ps, raised = None\<rparr>))"

section \<open>\<^verbatim>\<open>simple_bot.py\<close>\<close>

text \<open>The quiz of \<^verbatim>\<open>simple_bot.py\<close> lives in the \<^verbatim>\<open>user_data\<close> of one context and knows
  only its current poll. Participants are keyed by \<^verbatim>\<open>str(user.id)\<close>; the table built by
  the answer handler is the one \<^verbatim>\<open>end_quiz\<close> ranks. \<^verbatim>\<open>end_quiz\<close> hands its text to
  \<^verbatim>\<open>update.message.reply_text\<close>; the model records the text and the sorted table.\<close>

record squiz =
  s_questions :: "question list"
  s_current_index :: int
  s_participants :: "(string \<times> participant) list"
  s_current_poll_id :: "string option"

definition handle_quiz_poll_answer :: "squiz option \<Rightarrow> string \<Rightarrow> tg_user \<Rightarrow> int list \<Rightarrow> squiz option" where
  "handle_quiz_poll_answer stored poll_id user option_ids =
     (case stored of
        None \<Rightarrow> stored
      | Some quiz_data \<Rightarrow>
          if Some poll_id \<noteq> s_current_poll_id quiz_data then stored
          else
            (let current_index = s_current_index quiz_data - 1
             in if 0 \<le> current_index \<and> current_index < int (length (s_questions quiz_data)) then
                  (let correct_option = q_answer (s_questions quiz_data ! nat current_index);
                       user_id = str_int (u_id user);
                       ps0 = s_participants quiz_data;
                       ps1 = init_if_absent user_id (new_participant (u_first_name user) (u_username user)) ps0;
                       ps2 = AList.map_entry user_id (\<lambda>p. p\<lparr>p_answered := p_answered p + 1\<rparr>) ps1;
                       ps3 = (if is_correct option_ids correct_option
                              then AList.map_entry user_id (\<lambda>p. p\<lparr>p_correct := p_correct p + 1\<rparr>) ps2
                              else ps2)
                   in Some (quiz_data\<lparr>s_participants := ps3\<rparr>))
                else stored))"

definition sports_medal :: string where
  "sports_medal = [CHR 0xF0, CHR 0x9F, CHR 0x8F, CHR 0x85]"

definition name_display :: "participant \<Rightarrow> string" where
  "name_display data =
     (case p_username data of
        None \<Rightarrow> p_name data
      | Some u \<Rightarrow> if u = '''' then p_name data else p_name data @ '' (@'' @ u @ '')'')"

definition sort_key_s :: "string \<times> participant \<Rightarrow> int \<times> int" where
  "sort_key_s x = (p_correct (snd x), - p_answered (snd x))"

definition result_line_s :: "nat \<Rightarrow> nat \<times> string \<times> participant \<Rightarrow> string" where
  "result_line_s n_total row =
     (let i = fst row; data = snd (snd row); correct = p_correct data;
          medal = (if i < 3 then medals_O ! i else sports_medal)
      in medal @ '' '' @ name_display data @ '': '' @ str_int correct @ ''/'' @ str_nat n_total
         @ '' ('' @ fmt_fixed 1 (percentage correct n_total) @ ''%)'' @ nl)"

record s_end_result =
  s_quiz_after :: "squiz option"
  s_reply :: string
  s_ranking :: "(string \<times> participant) list"

definition end_quiz_s :: "squiz option \<Rightarrow> s_end_result" where
  "end_quiz_s stored =
     (case stored of
        None \<Rightarrow> \<lparr>s_quiz_after = stored, s_reply = ''No quiz in progress.'', s_ranking = []\<rparr>
      | Some quiz_data \<Rightarrow>
          if s_participants quiz_data = [] then
            \<lparr>s_quiz_after = stored,
             s_reply = flag_O @ '' The quiz has finished!'' @ nl @ nl
                       @ ''No one participated in this quiz.'' @ nl @ nl
                       @ ''Start a new quiz with /quiz'',
             s_ranking = []\<rparr>
          else
            (let sorted_ps = sorted_reverse sort_key_s (s_participants quiz_data);
                 n_total = length (s_questions quiz_data)
             in \<lparr>s_quiz_after = None,
                 s_reply = flag_O @ '' The quiz has finished!'' @ nl @ nl
                           @ str_nat n_total @ '' questions answered'' @ nl @ nl
                           @ trophy_O @ '' Congratulations to the winner: ''
                           @ name_display (snd (hd sorted_ps)) @ ''!'' @ nl @ nl
                           @ concat (map (result_line_s n_total) (enumerate 0 sorted_ps)),
                 s_ranking = sorted_ps\<rparr>))"

section \<open>\<^verbatim>\<open>Simple_bot.py\<close>: the single-question timed quiz\<close>

text \<open>A timed quiz is stored in \<^verbatim>\<open>context.bot_data\<close> under a key \<^verbatim>\<open>quiz_...\<close>. The answer
  handler finds it by comparing its \<^verbatim>\<open>poll_message_id\<close> with the poll id of the answer
  (given here as the integer \<^verbatim>\<open>int(poll_id)\<close>). The user's overall score in the database
  and the job that ends an untimed quiz in a private chat are outside the model.\<close>

record tparticipant =
  t_name :: string
  t_score :: rat
  t_correct :: bool

record timed_quiz =
  correct_option :: "int option"
  t_participants :: "(string \<times> tparticipant) list"
  negative_marking :: "bool option"
  poll_message_id :: "int option"

definition is_quiz_for :: "int \<Rightarrow> string \<times> timed_quiz \<Rightarrow> bool" where
  "is_quiz_for poll_id entry =
     (take 5 (fst entry) = ''quiz_'' \<and>
      (case poll_message_id (snd entry) of None \<Rightarrow> False | Some m \<Rightarrow> m \<noteq> 0 \<and> m = poll_id))"

text \<open>The points of one answer: \<^verbatim>\<open>selected_option\<close> is the first chosen option or
  \<^verbatim>\<open>None\<close>; negative marking is enabled unless the quiz says otherwise.\<close>

definition selected_option :: "int list \<Rightarrow> int option" where
  "selected_option option_ids = (case option_ids of [] \<Rightarrow> None | c # _ \<Rightarrow> Some c)"

definition points :: "timed_quiz \<Rightarrow> int list \<Rightarrow> rat" where
  "points quiz_data option_ids =
     (if selected_option option_ids = correct_option quiz_data then 1
      else if (case negative_marking quiz_data of None \<Rightarrow> True | Some b \<Rightarrow> b) then - (1 / 2)
      else 0)"

definition score_answer :: "timed_quiz \<Rightarrow> tg_user \<Rightarrow> int list \<Rightarrow> timed_quiz" where
  "score_answer quiz_data user option_ids =
     (let user_id = str_int (u_id user);
          ps0 = t_participants quiz_data;
          ps1 = init_if_absent user_id \<lparr>t_name = u_first_name user, t_score = 0, t_correct = False\<rparr> ps0;
          ps2 = AList.map_entry user_id
                  (\<lambda>p. p\<lparr>t_correct := (selected_option option_ids = correct_option quiz_data)\<rparr>) ps1;
          ps3 = AList.map_entry user_id (\<lambda>p. p\<lparr>t_score := points quiz_data option_ids\<rparr>) ps2
      in quiz_data\<lparr>t_participants := ps3\<rparr>)"

definition handle_quiz_answer :: "(string \<times> timed_quiz) list \<Rightarrow> tg_user \<Rightarrow> int list \<Rightarrow> int \<Rightarrow> (string \<times> timed_quiz) list" where
  "handle_quiz_answer bot_data user option_ids poll_id =
     (case find (is_quiz_for poll_id) bot_data of
        None \<Rightarrow> bot_data
      | Some (quiz_key, _) \<Rightarrow>
          (case map_of bot_data quiz_key of
             None \<Rightarrow> bot_data
           | Some quiz_data \<Rightarrow>
               AList.update quiz_key (score_answer quiz_data user option_ids) bot_data))"

section \<open>Notions used to state the properties\<close>

text \<open>The counters of one participant in a table of participants: answered, correct and
  accumulated penalty, all zero for a participant who is not in the table yet.\<close>

definition tally :: "(int \<times> participant) list \<Rightarrow> int \<Rightarrow> int \<times> int \<times> rat" where
  "tally ps user_id =
     (case map_of ps user_id of
        None \<Rightarrow> (0, 0, 0)
      | Some p \<Rightarrow> (p_answered p, p_correct p, negative_points p))"

definition live_tally :: "user_data \<Rightarrow> int \<Rightarrow> int \<Rightarrow> int \<times> int \<times> rat" where
  "live_tally w owner user_id =
     (case map_of w owner of
        Some (Some quiz) \<Rightarrow> tally (participants quiz) user_id
      | _ \<Rightarrow> (0, 0, 0))"

text \<open>The answered count of a user in a table of participants.\<close>

definition answered_count :: "(int \<times> participant) list \<Rightarrow> int \<Rightarrow> int" where
  "answered_count ps user_id = fst (tally ps user_id)"

text \<open>The number of stored answers of a user: per poll, and over all polls of a quiz.\<close>

definition answers_by :: "int \<Rightarrow> poll_info \<Rightarrow> nat" where
  "answers_by u poll_info = length (filter (\<lambda>e. fst e = u) (pi_answers poll_info))"

definition answers_of :: "int \<Rightarrow> (string \<times> poll_info) list \<Rightarrow> nat" where
  "answers_of u polls = sum_list (map (\<lambda>poll. answers_by u (snd poll)) polls)"

text \<open>One pass of the outer loop of the rebuild in \<^verbatim>\<open>end_quiz\<close>: all answers of one poll.\<close>

definition rebuild_poll :: "string \<times> poll_info \<Rightarrow> (int \<times> participant) list \<Rightarrow> (int \<times> participant) list" where
  "rebuild_poll poll ps = fold (\<lambda>entry ps. rebuild_entry ps entry) (pi_answers (snd poll)) ps"

text \<open>A call of the answer handler for the answer of a user, with a context of the older
  API whose \<^verbatim>\<open>dispatcher\<close> holds the data \<open>w\<close> of all users, as a change of that data. With
  such a context the handler gets as far as its search and its counters.\<close>

definition deliver :: "(tg_update \<Rightarrow> callback_context \<Rightarrow> py_error + user_data) \<Rightarrow> user_data \<Rightarrow> tg_poll_answer \<Rightarrow> user_data" where
  "deliver handler w answer =
     (case handler (PollAnswerUpdate answer) \<lparr>dispatcher = Some w\<rparr> of
        Inl e \<Rightarrow> w
      | Inr w' \<Rightarrow> w')"

text \<open>The invariant of a stored quiz: no more polls than questions sent, the cursor
  within the questions, one stored answer per user and poll, and in the table of
  participants no more correct answers than answers and no more answers than
  questions.\<close>

definition counts_ok :: "participant \<Rightarrow> bool" where
  "counts_ok p \<longleftrightarrow> 0 \<le> p_correct p \<and> p_correct p \<le> p_answered p"

definition quiz_inv :: "quiz \<Rightarrow> bool" where
  "quiz_inv quiz \<longleftrightarrow>
     length (sent_polls quiz) \<le> current_index quiz \<and>
     current_index quiz \<le> length (questions quiz) \<and>
     (\<forall>poll \<in> set (sent_polls quiz). distinct (map fst (pi_answers (snd poll)))) \<and>
     (\<forall>e \<in> set (participants quiz).
        counts_ok (snd e) \<and> p_answered (snd e) \<le> int (length (questions quiz)))"

definition all_quizzes :: "(quiz \<Rightarrow> bool) \<Rightarrow> user_data \<Rightarrow> bool" where
  "all_quizzes P w = list_all (\<lambda>e. case snd e of None \<Rightarrow> True | Some quiz \<Rightarrow> P quiz) w"

section \<open>Concrete data for the evaluated runs\<close>

definition bank3 :: "question list" where
  "bank3 = [\<lparr>q_id = 1, q_question = ''Q1'', q_options = [''a'', ''b''], q_answer = 0, q_category = ''General''\<rparr>,
            \<lparr>q_id = 2, q_question = ''Q2'', q_options = [''a'', ''b''], q_answer = 1, q_category = ''General''\<rparr>,
            \<lparr>q_id = 3, q_question = ''Q3'', q_options = [''a'', ''b'', ''c''], q_answer = 2, q_category = ''General''\<rparr>]"

definition upd0 :: update_info where
  "upd0 = \<lparr>effective_user = None, callback = NoCallbackQuery\<rparr>"

definition ux :: tg_user where
  "ux = \<lparr>u_id = 1, u_first_name = ''X'', u_username = Some ''xx''\<rparr>"

definition uy :: tg_user where
  "uy = \<lparr>u_id = 2, u_first_name = ''Y'', u_username = None\<rparr>"

definition zed :: creator where
  "zed = \<lparr>c_id = 7, c_name = ''Zed'', c_username = None\<rparr>"

definition new_quiz :: "question list \<Rightarrow> quiz" where
  "new_quiz qs = \<lparr>questions = qs, current_index = 0, participants = [], active = True,
                  sent_polls = [], creator = Some zed\<rparr>"

text \<open>Two questions; X answers both (the second wrongly), Y answers only the first,
  correctly: equal scores, X has answered more. The answers are recorded by
  \<^verbatim>\<open>poll_answer\<close> of \<^verbatim>\<open>Original.py\<close> called with a context that has a \<^verbatim>\<open>dispatcher\<close>.\<close>

definition tie_run :: user_data where
  "tie_run =
     (let w1 = step_O [(7, Some (new_quiz (take 2 bank3)))] (NextQuestion 7 upd0 ''p1'');
          w2 = deliver poll_answer_O w1 \<lparr>pa_poll_id = ''p1'', pa_user = ux, pa_option_ids = [0]\<rparr>;
          w3 = deliver poll_answer_O w2 \<lparr>pa_poll_id = ''p1'', pa_user = uy, pa_option_ids = [0]\<rparr>;
          w4 = step_O w3 (NextQuestion 7 upd0 ''p2'')
      in deliver poll_answer_O w4 \<lparr>pa_poll_id = ''p2'', pa_user = ux, pa_option_ids = [0]\<rparr>)"

definition tie_quiz :: quiz where
  "tie_quiz = the (the (map_of tie_run 7))"

definition pair_squiz :: squiz where
  "pair_squiz = the (handle_quiz_poll_answer
                      (handle_quiz_poll_answer
                         (Some \<lparr>s_questions = take 2 bank3, s_current_index = 1,
                                s_participants = [], s_current_poll_id = Some ''p1''\<rparr>)
                         ''p1'' ux [0])
                      ''p1'' uy [1])"

definition upd_x :: update_info where
  "upd_x = \<lparr>effective_user = Some ux, callback = NullCallbackQuery\<rparr>"

text \<open>The quiz stored by \<^verbatim>\<open>/quiz 0\<close> sent by X: no questions.\<close>

definition zero_quiz :: quiz where
  "zero_quiz = \<lparr>questions = [], current_index = 0, participants = [], active = True,
                 sent_polls = [],
                 creator = Some \<lparr>c_id = 1, c_name = ''X'', c_username = Some ''xx''\<rparr>\<rparr>"

text \<open>A quiz of four questions with its four polls sent; X then answers the first
  three correctly and the fourth wrongly, recorded by \<^verbatim>\<open>poll_answer\<close> of
  \<^verbatim>\<open>Lifechanger.py\<close> called with a context that has a \<^verbatim>\<open>dispatcher\<close>.\<close>

definition four_polls :: quiz where
  "four_polls = \<lparr>questions = bank3 @ [bank3 ! 0], current_index = 4, participants = [],
                  active = True,
                  sent_polls = [(''p1'', \<lparr>pi_question_index = 0, pi_answers = []\<rparr>),
                                (''p2'', \<lparr>pi_question_index = 1, pi_answers = []\<rparr>),
                                (''p3'', \<lparr>pi_question_index = 2, pi_answers = []\<rparr>),
                                (''p4'', \<lparr>pi_question_index = 3, pi_answers = []\<rparr>)],
                  creator = Some zed\<rparr>"

definition neg_run :: user_data where
  "neg_run = fold (\<lambda>a w. deliver poll_answer_L w
                            \<lparr>pa_poll_id = fst a, pa_user = ux, pa_option_ids = snd a\<rparr>)
               [(''p1'', [0]), (''p2'', [1]), (''p3'', [2]), (''p4'', [1])]
               [(7, Some four_polls)]"

definition neg_quiz :: quiz where
  "neg_quiz = the (the (map_of neg_run 7))"

text \<open>A timed quiz of \<^verbatim>\<open>Simple_bot.py\<close> whose correct option is 1.\<close>

definition timed1 :: timed_quiz where
  "timed1 = \<lparr>correct_option = Some 1, t_participants = [], negative_marking = Some True,
              poll_message_id = Some 99\<rparr>"

text \<open>The running bot with a quiz of two questions whose first poll has been sent.\<close>

definition open_world :: user_data where
  "open_world = run_O [(7, Some (new_quiz (take 2 bank3)))] [NextQuestion 7 upd0 ''p1'']"

definition open_quiz :: quiz where
  "open_quiz = the (the (map_of open_world 7))"

text \<open>The running bot with a quiz of one question: the poll is sent and Y answers it
  twice. Each answer reaches the application as the answer of Y and as the new state of
  the poll.\<close>

definition dup_events :: "event list" where
  "dup_events =
     [NextQuestion 7 upd_x ''p1'',
      Incoming (PollAnswerUpdate \<lparr>pa_poll_id = ''p1'', pa_user = uy, pa_option_ids = [0]\<rparr>),
      Incoming (PollUpdate ''p1''),
      Incoming (PollAnswerUpdate \<lparr>pa_poll_id = ''p1'', pa_user = uy, pa_option_ids = [0]\<rparr>),
      Incoming (PollUpdate ''p1'')]"

definition dup_run :: user_data where
  "dup_run = run_O [(7, Some (new_quiz (take 1 bank3)))] dup_events"

definition dup_quiz :: quiz where
  "dup_quiz = the (the (map_of dup_run 7))"

text \<open>The same run followed by the dispatch that ends the quiz.\<close>

definition ended_run :: user_data where
  "ended_run = run_O [(7, Some (new_quiz (take 1 bank3)))] (dup_events @ [NextQuestion 7 upd_x ''p2''])"

definition ended_quiz :: quiz where
  "ended_quiz = the (the (map_of ended_run 7))"

text \<open>A table of participants with penalties: X has 2 correct answers of 6 and a penalty
  of 1, Y has 1 correct of 1 and no penalty, W has 1 correct of 2 and a penalty of 0.25.\<close>

definition penalty_table :: "(int \<times> participant) list" where
  "penalty_table =
     [(1, \<lparr>p_name = ''X'', p_username = Some ''xx'', p_correct = 2, p_answered = 6,
            p_negative_points = Some 1\<rparr>),
      (3, \<lparr>p_name = ''W'', p_username = None, p_correct = 1, p_answered = 2,
            p_negative_points = Some (1 / 4)\<rparr>),
      (2, \<lparr>p_name = ''Y'', p_username = None, p_correct = 1, p_answered = 1,
            p_negative_points = None\<rparr>)]"

section \<open>Properties of the code\<close>

subsection \<open>\<^verbatim>\<open>start_quiz\<close>: the size of a random quiz\<close>

lemma length_sample_from:
  "k \<le> length pool \<Longrightarrow> length (sample_from ds pool k) = k"
  by (induction k arbitrary: ds pool) (auto simp: Let_def)

lemma length_sample_by_rejection:
  "length (sample_by_rejection ds population selected k) = k"
  by (induction k arbitrary: ds selected) (auto simp: Let_def)

lemma random_sample_length:
  "k \<le> length population \<Longrightarrow>
   \<exists>xs. random_sample ds population k = Inr xs \<and> length xs = k"
  by (simp add: random_sample_def length_sample_from length_sample_by_rejection)

lemma last_count_min: "min (last_count (min n 10) as) 10 = min (last_count n as) 10"
  by (induction n as rule: last_count.induct) auto

lemma parse_args_num:
  "parse_args st args = Inr opts \<Longrightarrow> num_questions st \<le> 10 \<Longrightarrow>
   num_questions opts = min (last_count (num_questions st) args) 10"
proof (induction args arbitrary: st)
  case Nil
  then show ?case by auto
next
  case (Cons a as)
  show ?case
  proof (cases a)
    case (DigitArg x)
    then show ?thesis using Cons
      by (cases x) (auto simp: last_count_min)
  next
    case (IdArg x)
    then show ?thesis using Cons by (cases x) auto
  next
    case (StartArg x)
    then show ?thesis using Cons by (cases x) auto
  next
    case OtherArg
    then show ?thesis using Cons by auto
  qed
qed

lemma parse_args_error: "parse_args st args = Inl e \<Longrightarrow> e = IntValueError"
proof (induction args arbitrary: st)
  case Nil
  then show ?case by simp
next
  case (Cons a as)
  then show ?case
    by (cases "parse_arg st a"; cases a) (auto split: option.splits elim: parse_arg.elims)
qed

lemma select_random:
  "random_selection bank opts \<Longrightarrow>
   select_questions bank opts draws = random_sample draws bank (min (num_questions opts) (length bank))"
  by (auto simp: random_selection_def select_questions_def Let_def split: option.splits)

lemma random_sample_no_error:
  "k \<le> length population \<Longrightarrow> random_sample ds population k \<noteq> Inl e"
  by (simp add: random_sample_def)

lemma select_never_sample_error:
  "select_questions bank opts draws \<noteq> Inl SampleValueError"
  by (auto simp: select_questions_def random_sample_no_error Let_def split: option.splits)

lemma start_never_sample_error:
  "start_quiz bank args eu draws \<noteq> Inl SampleValueError"
proof (cases "parse_args \<lparr>num_questions = 5, start_id = None, specific_id = None\<rparr> args")
  case (Inl e)
  then show ?thesis
    using parse_args_error[OF Inl] by (auto simp: start_quiz_def)
next
  case (Inr opts)
  then show ?thesis
    using select_never_sample_error[of bank opts draws]
    by (auto simp: start_quiz_def split: sum.splits)
qed

text \<open>
  Claim C9. \<^verbatim>\<open>start_quiz\<close> never fails in \<^verbatim>\<open>random.sample\<close>. Whenever the bank is not
  empty, the words of the command are read without an exception and the selection is
  random (asked for, or the fallback of an \<^verbatim>\<open>id=\<close> or \<^verbatim>\<open>start=\<close> that matches nothing),
  a quiz is started and the number of its questions is
  \<open>min (min requested 10) (size of the bank)\<close>, the requested count being 5 by default;
  so a random quiz has at most 10 questions.
\<close>

theorem start_quiz_random_size:
  "start_quiz bank args eu draws \<noteq> Inl SampleValueError \<and>
   (bank \<noteq> [] \<longrightarrow>
    parse_args \<lparr>num_questions = 5, start_id = None, specific_id = None\<rparr> args = Inr opts \<longrightarrow>
    random_selection bank opts \<longrightarrow>
    (\<exists>q. start_quiz bank args eu draws = Inr (Some q) \<and>
         length (questions q) = min (min (requested_count args) 10) (length bank) \<and>
         length (questions q) \<le> 10))"
proof (intro conjI impI)
  show "start_quiz bank args eu draws \<noteq> Inl SampleValueError"
    by (rule start_never_sample_error)
next
  assume ne: "bank \<noteq> []"
    and p: "parse_args \<lparr>num_questions = 5, start_id = None, specific_id = None\<rparr> args = Inr opts"
    and r: "random_selection bank opts"
  have n: "num_questions opts = min (requested_count args) 10"
    using parse_args_num[OF p] by (simp add: requested_count_def)
  let ?k = "min (num_questions opts) (length bank)"
  have "?k \<le> length bank" by simp
  from random_sample_length[OF this, of draws] obtain qs where
    qs: "random_sample draws bank ?k = Inr qs" and l: "length qs = ?k"
    by blast
  have s: "select_questions bank opts draws = Inr qs"
    using select_random[OF r] qs by simp
  show "\<exists>q. start_quiz bank args eu draws = Inr (Some q) \<and>
         length (questions q) = min (min (requested_count args) 10) (length bank) \<and>
         length (questions q) \<le> 10"
    using ne p s l n by (simp add: start_quiz_def)
qed

theorem start_quiz_random_size_witness:
  "bank3 \<noteq> [] \<and>
   parse_args \<lparr>num_questions = 5, start_id = None, specific_id = None\<rparr> [DigitArg (Some 20), IdArg (Some 9)]
     = Inr \<lparr>num_questions = 10, start_id = None, specific_id = Some 9\<rparr> \<and>
   random_selection bank3 \<lparr>num_questions = 10, start_id = None, specific_id = Some 9\<rparr> \<and>
   (\<exists>q. start_quiz bank3 [DigitArg (Some 20), IdArg (Some 9)] None [2, 0] = Inr (Some q) \<and>
        length (questions q) = 3)"
proof -
  have b: "bank3 \<noteq> []" by (simp add: bank3_def)
  have p: "parse_args \<lparr>num_questions = 5, start_id = None, specific_id = None\<rparr> [DigitArg (Some 20), IdArg (Some 9)]
     = Inr \<lparr>num_questions = 10, start_id = None, specific_id = Some 9\<rparr>" by simp
  have r: "random_selection bank3 \<lparr>num_questions = 10, start_id = None, specific_id = Some 9\<rparr>"
    by (simp add: random_selection_def bank3_def)
  have c: "min (min (requested_count [DigitArg (Some 20), IdArg (Some 9)]) 10) (length bank3) = 3"
    by (simp add: requested_count_def bank3_def)
  show ?thesis
    using b p r c
      start_quiz_random_size[of bank3 "[DigitArg (Some 20), IdArg (Some 9)]" None "[2, 0]"
        "\<lparr>num_questions = 10, start_id = None, specific_id = Some 9\<rparr>"]
    by auto
qed

subsection \<open>The order of the leaderboard\<close>

lemma sorted_reverse_nth:
  assumes "i < j" "j < length xs"
  shows "k (sorted_reverse k xs ! j) \<le> k (sorted_reverse k xs ! i)"
proof -
  let ?ys = "map k (sorted_reverse k xs)"
  have "rev ?ys = map k (sort_key k (rev xs))"
    by (simp add: sorted_reverse_def rev_map)
  then have "sorted (rev ?ys)" by simp
  moreover have "j < length ?ys" using assms by (simp add: sorted_reverse_def)
  ultimately have "?ys ! j \<le> ?ys ! i"
    using assms(1) by (simp add: sorted_rev_iff_nth_mono)
  then show ?thesis using assms by (simp add: sorted_reverse_def)
qed

lemma length_sorted_reverse [simp]: "length (sorted_reverse k xs) = length xs"
  by (simp add: sorted_reverse_def)

lemma set_sorted_reverse [simp]: "set (sorted_reverse k xs) = set xs"
  by (simp add: sorted_reverse_def)

text \<open>
  Claim C1, as the code has it. \<^verbatim>\<open>end_quiz\<close> of \<^verbatim>\<open>Original.py\<close> and of \<^verbatim>\<open>simple_bot.py\<close>,
  which have no negative marking (the adjusted score is the number of correct answers),
  sorts with the key (correct, minus answered) in descending order: of two participants
  of the final leaderboard the one listed first has strictly more correct answers, or
  as many and an answered count that is lower or equal. So at equal score the
  participant who answered fewer questions is ranked above. The sort of \<^verbatim>\<open>end_quiz\<close> of
  \<^verbatim>\<open>Lifechanger.py\<close> has the key (correct minus negative points, minus answered) and
  orders every table of participants in the same way, by the adjusted score of its
  entries.
\<close>

theorem ranking_order:
  "i < j \<Longrightarrow>
   (j < length (ranking (end_quiz_O upd q)) \<longrightarrow>
      (let a = snd (ranking (end_quiz_O upd q) ! i); b = snd (ranking (end_quiz_O upd q) ! j)
       in p_correct b < p_correct a \<or> (p_correct a = p_correct b \<and> p_answered a \<le> p_answered b))) \<and>
   (j < length (s_ranking (end_quiz_s sq)) \<longrightarrow>
      (let a = snd (s_ranking (end_quiz_s sq) ! i); b = snd (s_ranking (end_quiz_s sq) ! j)
       in p_correct b < p_correct a \<or> (p_correct a = p_correct b \<and> p_answered a \<le> p_answered b))) \<and>
   (j < length ps \<longrightarrow>
      (let a = snd (sorted_reverse sort_key_L ps ! i); b = snd (sorted_reverse sort_key_L ps ! j)
       in adjusted_score b < adjusted_score a \<or>
          (adjusted_score a = adjusted_score b \<and> p_answered a \<le> p_answered b)))"
proof (intro conjI impI)
  assume ij: "i < j" and j: "j < length (ranking (end_quiz_O upd q))"
  then have r: "ranking (end_quiz_O upd q) = sorted_reverse sort_key_O (final_participants q)"
    by (auto simp: end_quiz_O_def Let_def split: if_splits sum.splits)
  with j have "j < length (final_participants q)" by simp
  from sorted_reverse_nth[OF ij this, of sort_key_O]
  show "let a = snd (ranking (end_quiz_O upd q) ! i); b = snd (ranking (end_quiz_O upd q) ! j)
       in p_correct b < p_correct a \<or> (p_correct a = p_correct b \<and> p_answered a \<le> p_answered b)"
    unfolding r by (auto simp: sort_key_O_def Let_def)
next
  assume ij: "i < j" and j: "j < length (s_ranking (end_quiz_s sq))"
  then obtain qd where sq: "sq = Some qd" and ne: "s_participants qd \<noteq> []"
    by (cases sq) (auto simp: end_quiz_s_def split: if_splits)
  then have r: "s_ranking (end_quiz_s sq) = sorted_reverse sort_key_s (s_participants qd)"
    by (auto simp: end_quiz_s_def Let_def)
  with j have "j < length (s_participants qd)" by simp
  from sorted_reverse_nth[OF ij this, of sort_key_s]
  show "let a = snd (s_ranking (end_quiz_s sq) ! i); b = snd (s_ranking (end_quiz_s sq) ! j)
       in p_correct b < p_correct a \<or> (p_correct a = p_correct b \<and> p_answered a \<le> p_answered b)"
    unfolding r by (auto simp: sort_key_s_def Let_def)
next
  assume ij: "i < j" and j: "j < length ps"
  from sorted_reverse_nth[OF ij j, of sort_key_L]
  show "let a = snd (sorted_reverse sort_key_L ps ! i); b = snd (sorted_reverse sort_key_L ps ! j)
       in adjusted_score b < adjusted_score a \<or>
          (adjusted_score a = adjusted_score b \<and> p_answered a \<le> p_answered b)"
    by (auto simp: sort_key_L_def Let_def)
qed

theorem ranking_order_witness:
  "(0::nat) < 1 \<and>
   1 < length (ranking (end_quiz_O upd0 tie_quiz)) \<and>
   1 < length (s_ranking (end_quiz_s (Some pair_squiz))) \<and>
   1 < length penalty_table \<and>
   (let a = snd (ranking (end_quiz_O upd0 tie_quiz) ! 0); b = snd (ranking (end_quiz_O upd0 tie_quiz) ! 1)
    in p_correct b < p_correct a \<or> (p_correct a = p_correct b \<and> p_answered a \<le> p_answered b)) \<and>
   (let a = snd (s_ranking (end_quiz_s (Some pair_squiz)) ! 0);
        b = snd (s_ranking (end_quiz_s (Some pair_squiz)) ! 1)
    in p_correct b < p_correct a \<or> (p_correct a = p_correct b \<and> p_answered a \<le> p_answered b)) \<and>
   (let a = snd (sorted_reverse sort_key_L penalty_table ! 0);
        b = snd (sorted_reverse sort_key_L penalty_table ! 1)
    in adjusted_score b < adjusted_score a \<or>
       (adjusted_score a = adjusted_score b \<and> p_answered a \<le> p_answered b)) \<and>
   map (\<lambda>e. (fst e, adjusted_score (snd e), p_answered (snd e)))
     (sorted_reverse sort_key_L penalty_table) = [(2, 1, 1), (1, 1, 6), (3, 3 / 4, 2)]"
proof -
  have l1: "1 < length (ranking (end_quiz_O upd0 tie_quiz))" by code_simp
  have l2: "1 < length (s_ranking (end_quiz_s (Some pair_squiz)))" by code_simp
  have l3: "1 < length penalty_table" by code_simp
  have l0: "(0::nat) < 1" by simp
  have t: "map (\<lambda>e. (fst e, adjusted_score (snd e), p_answered (snd e)))
     (sorted_reverse sort_key_L penalty_table) = [(2, 1, 1), (1, 1, 6), (3, 3 / 4, 2)]"
    by code_simp
  show ?thesis
    using l1 l2 l3 t ranking_order[OF l0, of upd0 tie_quiz "Some pair_squiz" penalty_table]
    by simp
qed

text \<open>The final table of the quiz \<open>tie_quiz\<close>: Y (id 2; one correct of one answered) is
  listed above X (id 1; one correct of two answered), although X has the higher
  answered count at equal score.\<close>

theorem ranking_tie_counterexample:
  "map (\<lambda>e. (fst e, p_correct (snd e), p_answered (snd e)))
     (ranking (end_quiz_O upd0 tie_quiz)) = [(2, 1, 1), (1, 1, 2)]"
  by code_simp

subsection \<open>The answer handler in the running bot\<close>

lemma poll_answer_O_application:
  "poll_answer_O update application_context = Inl AttributeError"
  by (simp add: poll_answer_O_def application_context_def split: option.splits)

lemma poll_answer_L_application:
  "poll_answer_L update application_context = Inl AttributeError"
  by (simp add: poll_answer_L_def application_context_def split: option.splits)

lemma poll_answer_without_answer:
  "poll_answer_O (PollUpdate pid) ctx = Inl AttributeError"
  "poll_answer_L (PollUpdate pid) ctx = Inl AttributeError"
  by (simp_all add: poll_answer_O_def poll_answer_L_def update_poll_answer_def)

lemma on_update_O:
  "on_update poll_answer_O w update =
     (w, if poll_handler_accepts update then Some AttributeError else None)"
  by (simp add: on_update_def poll_answer_O_application)

lemma on_update_L:
  "on_update poll_answer_L w update =
     (w, if poll_handler_accepts update then Some AttributeError else None)"
  by (simp add: on_update_def poll_answer_L_application)

lemma step_O_incoming: "step_O w (Incoming update) = w"
  by (simp add: on_update_O)

text \<open>
  Claim C4, evaluated. An answer of X for the poll \<open>p9\<close>, which no quiz has sent, reaches
  the running bot of \<^verbatim>\<open>Original.py\<close> (and of \<^verbatim>\<open>Lifechanger.py\<close>), whose quiz has its first
  poll open. \<^verbatim>\<open>poll_answer\<close> ends with \<^verbatim>\<open>AttributeError\<close>: for the update with the state
  of the poll, which the \<^verbatim>\<open>PollHandler\<close> passes to it, and for the answer itself in a
  context of the application. The stored data do not change.
  (\<^verbatim>\<open>handle_quiz_poll_answer\<close> of \<^verbatim>\<open>simple_bot.py\<close>, which reads the quiz from
  \<^verbatim>\<open>context.user_data\<close>, returns without a change and without an exception.) Besides, a
  poll stays in \<^verbatim>\<open>sent_polls\<close> until its quiz ends: called with a context that has a
  \<^verbatim>\<open>dispatcher\<close>, \<^verbatim>\<open>poll_answer\<close> records an answer of Y to the first poll \<open>p1\<close> of the quiz
  \<open>tie_quiz\<close>, whose second poll has been sent.
\<close>

theorem unknown_poll_raises:
  "\<not> has_poll ''p9'' (7, Some open_quiz) \<and>
   on_update poll_answer_O open_world (PollUpdate ''p9'') = (open_world, Some AttributeError) \<and>
   on_update poll_answer_L open_world (PollUpdate ''p9'') = (open_world, Some AttributeError) \<and>
   poll_answer_O (PollAnswerUpdate \<lparr>pa_poll_id = ''p9'', pa_user = ux, pa_option_ids = [0]\<rparr>)
     application_context = Inl AttributeError \<and>
   poll_answer_L (PollAnswerUpdate \<lparr>pa_poll_id = ''p9'', pa_user = ux, pa_option_ids = [0]\<rparr>)
     application_context = Inl AttributeError \<and>
   handle_quiz_poll_answer (Some pair_squiz) ''p9'' ux [0] = Some pair_squiz \<and>
   current_index tie_quiz = 2 \<and> map fst (sent_polls tie_quiz) = [''p1'', ''p2''] \<and>
   live_tally tie_run 7 2 = (1, 1, 0) \<and>
   live_tally (deliver poll_answer_O tie_run
                 \<lparr>pa_poll_id = ''p1'', pa_user = uy, pa_option_ids = [1]\<rparr>) 7 2 = (2, 1, 0)"
  by code_simp

text \<open>
  Claim C5, evaluated. The running bot of \<^verbatim>\<open>Original.py\<close> (and of \<^verbatim>\<open>Lifechanger.py\<close>)
  has a quiz of two questions whose first poll \<open>p1\<close> is open, and Y answers it with the
  correct option 0. The update with the answer of Y has no handler. The update with the
  new state of the poll is passed to \<^verbatim>\<open>poll_answer\<close>, which ends with \<^verbatim>\<open>AttributeError\<close>,
  as it does for the answer itself in a context of the application. The stored data are
  unchanged: Y has no entry in the table of participants (answered 0, correct 0).
\<close>

theorem answer_not_recorded:
  "has_poll ''p1'' (7, Some open_quiz) \<and>
   q_answer (questions open_quiz ! pi_question_index (get_poll_info open_quiz ''p1'')) = 0 \<and>
   on_update poll_answer_O open_world
     (PollAnswerUpdate \<lparr>pa_poll_id = ''p1'', pa_user = uy, pa_option_ids = [0]\<rparr>) = (open_world, None) \<and>
   on_update poll_answer_L open_world
     (PollAnswerUpdate \<lparr>pa_poll_id = ''p1'', pa_user = uy, pa_option_ids = [0]\<rparr>) = (open_world, None) \<and>
   on_update poll_answer_O open_world (PollUpdate ''p1'') = (open_world, Some AttributeError) \<and>
   on_update poll_answer_L open_world (PollUpdate ''p1'') = (open_world, Some AttributeError) \<and>
   poll_answer_O (PollAnswerUpdate \<lparr>pa_poll_id = ''p1'', pa_user = uy, pa_option_ids = [0]\<rparr>)
     application_context = Inl AttributeError \<and>
   poll_answer_L (PollAnswerUpdate \<lparr>pa_poll_id = ''p1'', pa_user = uy, pa_option_ids = [0]\<rparr>)
     application_context = Inl AttributeError \<and>
   live_tally open_world 7 2 = (0, 0, 0)"
  by code_simp

text \<open>
  Claim C2, evaluated. The running bot of \<^verbatim>\<open>Original.py\<close> has a quiz of one question; its
  poll \<open>p1\<close> is sent and Y answers it twice (the run \<open>dup_run\<close>). No call of
  \<^verbatim>\<open>poll_answer\<close> gets as far as storing an answer: the poll has no stored answer, and
  the table that \<^verbatim>\<open>end_quiz\<close> rebuilds from the stored answers is empty. The final results
  list only the creator of the quiz, by the fallback; Y is not in them, and the answered
  count reported for Y is 0.
\<close>

theorem duplicates_not_counted:
  "map (\<lambda>poll. (fst poll, pi_answers (snd poll))) (sent_polls dup_quiz) = [(''p1'', [])] \<and>
   participants dup_quiz = [] \<and>
   rebuild_participants (sent_polls dup_quiz) = [] \<and>
   map (\<lambda>e. (fst e, p_name (snd e), p_correct (snd e), p_answered (snd e)))
     (ranking (end_quiz_O upd_x dup_quiz)) = [(7, ''Zed'', 1, 1)] \<and>
   answered_count (ranking (end_quiz_O upd_x dup_quiz)) 2 = 0 \<and>
   sent_message (end_quiz_O upd_x dup_quiz) =
     Some (flag_O @ '' The quiz has finished!'' @ nl @ nl @ ''1 questions answered'' @ nl @ nl
           @ trophy_O @ '' Congratulations to the winner: Zed!'' @ nl @ nl
           @ medals_O ! 0 @ '' Zed: 1/1 (100.0%)'' @ nl)"
  by code_simp

subsection \<open>The counters of the handler\<close>

lemma map_of_ensure:
  "map_of (init_if_absent k v ps) k = Some (case map_of ps k of None \<Rightarrow> v | Some p \<Rightarrow> p)"
  by (auto simp: init_if_absent_def update_conv' map_of_eq_None_iff[symmetric] split: option.splits)

lemma map_of_ensure_other:
  "k' \<noteq> k \<Longrightarrow> map_of (init_if_absent k v ps) k' = map_of ps k'"
  by (auto simp: init_if_absent_def update_conv')

lemma tally_record_O:
  assumes "pi_question_index (get_poll_info q pid) < length (questions q)"
  shows "tally (participants (record_answer_O q pid user opts)) (u_id user) =
     (case tally (participants q) (u_id user) of (a, c, n) \<Rightarrow>
        (a + 1,
         c + (if is_correct opts (q_answer (questions q ! pi_question_index (get_poll_info q pid))) then 1 else 0),
         n))"
  using assms
  by (auto simp: record_answer_O_def Let_def tally_def map_of_map_entry map_of_ensure
      new_participant_def negative_points_def split: option.splits)

lemma tally_record_L:
  assumes "pi_question_index (get_poll_info q pid) < length (questions q)"
  shows "tally (participants (record_answer_L q pid user opts)) (u_id user) =
     (case tally (participants q) (u_id user) of (a, c, n) \<Rightarrow>
        (a + 1,
         c + (if is_correct opts (q_answer (questions q ! pi_question_index (get_poll_info q pid))) then 1 else 0),
         (if is_correct opts (q_answer (questions q ! pi_question_index (get_poll_info q pid)))
          then n else fl (n + 1 / 4))))"
  using assms
  by (auto simp: record_answer_L_def Let_def tally_def map_of_map_entry map_of_ensure
      new_participant_def negative_points_def add_negative_def split: option.splits)

lemma deliver_O:
  "deliver poll_answer_O w answer =
     search_and_record_O w (pa_poll_id answer) (pa_user answer) (pa_option_ids answer)"
  by (simp add: deliver_def poll_answer_O_def update_poll_answer_def)

lemma deliver_L:
  "deliver poll_answer_L w answer =
     search_and_record_L w (pa_poll_id answer) (pa_user answer) (pa_option_ids answer)"
  by (simp add: deliver_def poll_answer_L_def update_poll_answer_def)

lemma search_and_record_O_found:
  "find (has_poll pid) w = Some (owner, Some q) \<Longrightarrow>
   map_of (search_and_record_O w pid user opts) owner = Some (Some (record_answer_O q pid user opts))"
  by (simp add: search_and_record_O_def update_conv')

lemma search_and_record_L_found:
  "find (has_poll pid) w = Some (owner, Some q) \<Longrightarrow>
   map_of (search_and_record_L w pid user opts) owner = Some (Some (record_answer_L q pid user opts))"
  by (simp add: search_and_record_L_def update_conv')

text \<open>
  What the body of \<^verbatim>\<open>poll_answer\<close> does when it is reached, that is, when the handler is
  called for the answer of a user with a context that has a \<^verbatim>\<open>dispatcher\<close>. Let the
  answer, with chosen option \<open>chosen\<close>, be for a poll that the search finds in \<open>quiz\<close> and
  that belongs to one of its questions. In the table of participants of the quiz the
  answered count of the user grows by 1; the correct count grows by 1 exactly when the
  chosen option is the question's answer; otherwise \<^verbatim>\<open>Lifechanger.py\<close> adds 0.25 to the
  penalty, and \<^verbatim>\<open>Original.py\<close> (no negative marking) adds nothing.
\<close>

lemma handler_body_counts:
  assumes "find (has_poll poll_id) w = Some (owner, Some quiz)"
    and "pi_question_index (get_poll_info quiz poll_id) < length (questions quiz)"
    and "question = questions quiz ! pi_question_index (get_poll_info quiz poll_id)"
    and "tally (participants quiz) (u_id user) = (a, c, n)"
  shows "live_tally (deliver poll_answer_L w
                       \<lparr>pa_poll_id = poll_id, pa_user = user, pa_option_ids = chosen # rest\<rparr>)
           owner (u_id user)
           = (a + 1, c + (if chosen = q_answer question then 1 else 0),
              (if chosen = q_answer question then n else fl (n + 1 / 4))) \<and>
         live_tally (deliver poll_answer_O w
                       \<lparr>pa_poll_id = poll_id, pa_user = user, pa_option_ids = chosen # rest\<rparr>)
           owner (u_id user)
           = (a + 1, c + (if chosen = q_answer question then 1 else 0), n)"
proof -
  have ic: "is_correct (chosen # rest) (q_answer question) \<longleftrightarrow> chosen = q_answer question"
    by (simp add: is_correct_def)
  have L: "live_tally (deliver poll_answer_L w
                       \<lparr>pa_poll_id = poll_id, pa_user = user, pa_option_ids = chosen # rest\<rparr>)
           owner (u_id user)
           = (a + 1, c + (if chosen = q_answer question then 1 else 0),
              (if chosen = q_answer question then n else fl (n + 1 / 4)))"
    using tally_record_L[OF assms(2), of user "chosen # rest"] assms(3,4) ic
    by (simp add: live_tally_def deliver_L search_and_record_L_found[OF assms(1)])
  have O: "live_tally (deliver poll_answer_O w
                       \<lparr>pa_poll_id = poll_id, pa_user = user, pa_option_ids = chosen # rest\<rparr>)
           owner (u_id user)
           = (a + 1, c + (if chosen = q_answer question then 1 else 0), n)"
    using tally_record_O[OF assms(2), of user "chosen # rest"] assms(3,4) ic
    by (simp add: live_tally_def deliver_O search_and_record_O_found[OF assms(1)])
  show ?thesis
    unfolding L O by simp
qed

subsection \<open>The results do not depend on the live table\<close>

text \<open>
  Claim C8. \<^verbatim>\<open>end_quiz\<close> never reads \<^verbatim>\<open>quiz['participants']\<close>: it rebuilds the table from
  \<^verbatim>\<open>sent_polls\<close>. Two quizzes with the same questions and the same polls with their
  answers (and the same creator and activity flag, which \<^verbatim>\<open>end_quiz\<close> does read) give
  the same message, the same ranking and the same outcome, whatever their live tables
  of participants (and cursors) are.
\<close>

theorem results_ignore_live_participants:
  assumes "questions q1 = questions q2" "sent_polls q1 = sent_polls q2"
    and "creator q1 = creator q2" "active q1 = active q2"
  shows "sent_message (end_quiz_O upd q1) = sent_message (end_quiz_O upd q2) \<and>
         ranking (end_quiz_O upd q1) = ranking (end_quiz_O upd q2) \<and>
         raised (end_quiz_O upd q1) = raised (end_quiz_O upd q2) \<and>
         sent_message (end_quiz_L upd q1) = sent_message (end_quiz_L upd q2) \<and>
         ranking (end_quiz_L upd q1) = ranking (end_quiz_L upd q2) \<and>
         raised (end_quiz_L upd q1) = raised (end_quiz_L upd q2)"
proof -
  have f: "final_participants q1 = final_participants q2"
    using assms by (simp add: final_participants_def creator_fallback_def split: option.splits)
  have d: "dummy_user_name upd (q1\<lparr>active := False, participants := ps\<rparr>)
         = dummy_user_name upd (q2\<lparr>active := False, participants := ps\<rparr>)" for ps
    using assms by (simp add: dummy_user_name_def split: option.splits callback_query.splits)
  have m: "dummy_message fl tr me (q1\<lparr>active := False, participants := ps\<rparr>) nm
         = dummy_message fl tr me (q2\<lparr>active := False, participants := ps\<rparr>) nm" for fl tr me ps nm
    using assms by (simp add: dummy_message_def)
  show ?thesis
    using assms(1,4) d m
    by (simp add: end_quiz_O_def end_quiz_L_def f Let_def split: sum.splits)
qed

theorem results_ignore_live_participants_witness:
  "questions tie_quiz = questions (tie_quiz\<lparr>participants := []\<rparr>) \<and>
   sent_polls tie_quiz = sent_polls (tie_quiz\<lparr>participants := []\<rparr>) \<and>
   creator tie_quiz = creator (tie_quiz\<lparr>participants := []\<rparr>) \<and>
   active tie_quiz = active (tie_quiz\<lparr>participants := []\<rparr>) \<and>
   participants tie_quiz \<noteq> participants (tie_quiz\<lparr>participants := []\<rparr>) \<and>
   sent_message (end_quiz_O upd0 tie_quiz) = sent_message (end_quiz_O upd0 (tie_quiz\<lparr>participants := []\<rparr>)) \<and>
   ranking (end_quiz_O upd0 tie_quiz) = ranking (end_quiz_O upd0 (tie_quiz\<lparr>participants := []\<rparr>)) \<and>
   sent_message (end_quiz_L upd0 tie_quiz) = sent_message (end_quiz_L upd0 (tie_quiz\<lparr>participants := []\<rparr>)) \<and>
   ranking (end_quiz_L upd0 tie_quiz) = ranking (end_quiz_L upd0 (tie_quiz\<lparr>participants := []\<rparr>))"
proof -
  have ne: "participants tie_quiz \<noteq> []" by code_simp
  show ?thesis
    using ne results_ignore_live_participants[of tie_quiz "tie_quiz\<lparr>participants := []\<rparr>" upd0]
    by simp
qed

subsection \<open>The fallback for an empty scoreboard\<close>

lemma fmt_100: "fmt_fixed (Suc 0) 100 = ''100.0''"
  by code_simp

lemma fl_1: "fl 1 = 1"
  by code_simp

lemma fl_100: "fl 100 = 100"
  by code_simp

lemma percentage_full: "0 < n \<Longrightarrow> percentage (int n) n = 100"
  by (simp add: percentage_def fl_1 fl_100)

lemma str_int_nat: "str_int (int n) = str_nat n"
  by (simp add: str_int_def)

lemma fold_rebuild_empty:
  "\<forall>poll \<in> set polls. pi_answers (snd poll) = [] \<Longrightarrow>
   fold (\<lambda>poll ps. fold (\<lambda>entry ps. rebuild_entry ps entry) (pi_answers (snd poll)) ps) polls acc = acc"
  by (induction polls arbitrary: acc) auto

lemma rebuild_empty:
  "\<forall>poll \<in> set polls. pi_answers (snd poll) = [] \<Longrightarrow> rebuild_participants polls = []"
  by (simp add: rebuild_participants_def fold_rebuild_empty)

lemma sorted_reverse_single: "sorted_reverse k [x] = [x]"
  by (simp add: sorted_reverse_def)

text \<open>
  Claim C3, as the code has it. When no poll of the quiz has a recorded answer and the
  quiz has a creator (with a non-zero id), \<^verbatim>\<open>end_quiz\<close> ranks a single entry: the creator,
  with every question counted as answered and as correct. For a quiz of \<open>n \<ge> 1\<close>
  questions the line of the message reads \<open>n/n (100.0%)\<close>. (\<^verbatim>\<open>Original.py\<close> does this for
  an active quiz only; it returns at once for an inactive one.)
\<close>

theorem empty_scoreboard_fallback:
  assumes "\<forall>poll \<in> set (sent_polls q). pi_answers (snd poll) = []"
    and "creator q = Some c" "c_id c \<noteq> 0"
    and "n = length (questions q)" "0 < n"
    and "entry = \<lparr>p_name = c_name c, p_username = c_username c, p_correct = int n,
                   p_answered = int n, p_negative_points = None\<rparr>"
  shows "(active q \<longrightarrow>
           ranking (end_quiz_O upd q) = [(c_id c, entry)] \<and>
           sent_message (end_quiz_O upd q) =
             Some (flag_O @ '' The quiz has finished!'' @ nl @ nl
                   @ str_nat n @ '' questions answered'' @ nl @ nl
                   @ trophy_O @ '' Congratulations to the winner: '' @ c_name c @ ''!'' @ nl @ nl
                   @ medals_O ! 0 @ '' '' @ c_name c @ username_text (c_username c) @ '': ''
                   @ str_nat n @ ''/'' @ str_nat n @ '' (100.0%)'' @ nl)) \<and>
         ranking (end_quiz_L upd q) = [(c_id c, entry)] \<and>
         sent_message (end_quiz_L upd q) =
           Some (flag_L @ '' The quiz has finished!'' @ nl @ nl
                 @ str_nat n @ '' questions answered'' @ nl @ nl
                 @ trophy_L @ '' Congratulations to the winner: '' @ c_name c @ ''!'' @ nl @ nl
                 @ chart_L @ '' Final Rankings:'' @ nl @ nl
                 @ medals_L ! 0 @ '' '' @ c_name c @ username_text (c_username c) @ '': ''
                 @ str_nat n @ ''/'' @ str_nat n @ '' (100.0%)'' @ nl)"
proof -
  have f: "final_participants q = [(c_id c, entry)]"
    using assms by (simp add: final_participants_def creator_fallback_def rebuild_empty)
  have lO: "result_line_O n (0, c_id c, entry) =
      medals_O ! 0 @ '' '' @ c_name c @ username_text (c_username c) @ '': ''
                   @ str_nat n @ ''/'' @ str_nat n @ '' (100.0%)'' @ nl"
    using assms(5,6)
    by (simp add: result_line_O_def Let_def rank_emoji_def percentage_full fmt_100 str_int_nat)
  have lL: "result_line_L n (0, c_id c, entry) =
      medals_L ! 0 @ '' '' @ c_name c @ username_text (c_username c) @ '': ''
                   @ str_nat n @ ''/'' @ str_nat n @ '' (100.0%)'' @ nl"
    using assms(5,6)
    by (simp add: result_line_L_def Let_def rank_emoji_def percentage_full fmt_100 str_int_nat
        negative_points_def)
  have e: "enumerate 0 [(c_id c, entry)] = [(0, c_id c, entry)]"
    by (simp add: enumerate_eq_zip)
  have nm: "p_name entry = c_name c" using assms(6) by simp
  show ?thesis
    by (simp add: assms(4)[symmetric] end_quiz_O_def end_quiz_L_def f Let_def sorted_reverse_single
        results_message_O_def results_message_L_def e lO lL nm)
qed

lemma str_nat_3: "str_nat 3 = ''3''"
  by code_simp

theorem empty_scoreboard_fallback_witness:
  "sent_polls (new_quiz bank3) = [] \<and>
   creator (new_quiz bank3) = Some zed \<and> c_id zed \<noteq> 0 \<and>
   3 = length (questions (new_quiz bank3)) \<and> (0::nat) < 3 \<and> active (new_quiz bank3) \<and>
   ranking (end_quiz_O upd_x (new_quiz bank3)) =
     [(7, \<lparr>p_name = ''Zed'', p_username = None, p_correct = 3, p_answered = 3,
            p_negative_points = None\<rparr>)] \<and>
   sent_message (end_quiz_O upd_x (new_quiz bank3)) =
     Some (flag_O @ '' The quiz has finished!'' @ nl @ nl @ ''3 questions answered'' @ nl @ nl
           @ trophy_O @ '' Congratulations to the winner: Zed!'' @ nl @ nl
           @ medals_O ! 0 @ '' Zed: 3/3 (100.0%)'' @ nl)"
proof -
  have h1: "\<forall>poll \<in> set (sent_polls (new_quiz bank3)). pi_answers (snd poll) = []"
    by (simp add: new_quiz_def)
  have h2: "creator (new_quiz bank3) = Some zed" by (simp add: new_quiz_def)
  have h3: "c_id zed \<noteq> 0" by (simp add: zed_def)
  have h4: "3 = length (questions (new_quiz bank3))" by (simp add: new_quiz_def bank3_def)
  have h5: "(0::nat) < 3" by simp
  have h6: "active (new_quiz bank3)" by (simp add: new_quiz_def)
  have h0: "sent_polls (new_quiz bank3) = []" by (simp add: new_quiz_def)
  show ?thesis
    using h0 h2 h3 h4 h5 h6 empty_scoreboard_fallback[OF h1 h2 h3 h4 h5 refl, of upd_x]
    by (simp add: zed_def str_nat_3 username_text_def)
qed

text \<open>The command \<^verbatim>\<open>/quiz 0\<close> stores a quiz without questions; the first call of
  \<^verbatim>\<open>send_next_question\<close> ends it, the scoreboard is empty, and the creator's line reads
  \<open>0/0 (0.0%)\<close>, not \<open>(100.0%)\<close>.\<close>

theorem zero_question_fallback_counterexample:
  "start_quiz bank3 [DigitArg (Some 0)] (Some ux) [] = Inr (Some zero_quiz) \<and>
   send_next_question upd_x zero_quiz ''p1'' = quiz_after (end_quiz_O upd_x zero_quiz) \<and>
   sent_message (end_quiz_O upd_x zero_quiz) =
     Some (flag_O @ '' The quiz has finished!'' @ nl @ nl @ ''0 questions answered'' @ nl @ nl
           @ trophy_O @ '' Congratulations to the winner: X!'' @ nl @ nl
           @ medals_O ! 0 @ '' X (@xx): 0/0 (0.0%)'' @ nl)"
  by code_simp

subsection \<open>Negative marking in the final message of \<^verbatim>\<open>Lifechanger.py\<close>\<close>

text \<open>
  Claim C6, evaluated. After three correct answers and one wrong answer the live table
  of \<^verbatim>\<open>poll_answer\<close> holds 3 correct, 4 answered and a penalty of 0.25 (adjusted score
  2.75), and the line \<^verbatim>\<open>end_quiz\<close> would print for that entry is
  \<open>3-0.25=2.75/4 (68.8%)\<close>. But \<^verbatim>\<open>end_quiz\<close> rebuilds the table from the stored answers,
  which carry no penalty: the entry it ranks has no \<^verbatim>\<open>negative_points\<close> and the message
  it sends reads \<open>3/4 (75.0%)\<close>.
\<close>

theorem negative_marking_lost:
  "participants neg_quiz =
     [(1, \<lparr>p_name = ''X'', p_username = Some ''xx'', p_correct = 3, p_answered = 4,
            p_negative_points = Some (1 / 4)\<rparr>)] \<and>
   adjusted_score (snd (hd (participants neg_quiz))) = 11 / 4 \<and>
   result_line_L 4 (0, hd (participants neg_quiz)) =
     medals_L ! 0 @ '' X (@xx): 3-0.25=2.75/4 (68.8%)'' @ nl \<and>
   ranking (end_quiz_L upd_x neg_quiz) =
     [(1, \<lparr>p_name = ''X'', p_username = Some ''xx'', p_correct = 3, p_answered = 4,
            p_negative_points = None\<rparr>)] \<and>
   sent_message (end_quiz_L upd_x neg_quiz) =
     Some (flag_L @ '' The quiz has finished!'' @ nl @ nl @ ''4 questions answered'' @ nl @ nl
           @ trophy_L @ '' Congratulations to the winner: X!'' @ nl @ nl
           @ chart_L @ '' Final Rankings:'' @ nl @ nl
           @ medals_L ! 0 @ '' X (@xx): 3/4 (75.0%)'' @ nl)"
  by code_simp

subsection \<open>The score of the timed quiz of \<^verbatim>\<open>Simple_bot.py\<close>\<close>

lemma find_update_same:
  "distinct (map fst xs) \<Longrightarrow> find P xs = Some (k, v0) \<Longrightarrow> P (k, v) \<Longrightarrow>
   find P (AList.update k v xs) = Some (k, v)"
proof (induction xs)
  case Nil
  then show ?case by simp
next
  case (Cons x xs)
  show ?case
  proof (cases "P x")
    case True
    with Cons.prems show ?thesis by auto
  next
    case False
    with Cons.prems have f: "find P xs = Some (k, v0)" by simp
    then have "(k, v0) \<in> set xs" by (auto simp: find_Some_iff)
    then have "k \<in> fst ` set xs" by force
    then have "fst x \<noteq> k" using Cons.prems(1) by auto
    with False Cons f show ?thesis by auto
  qed
qed

lemma find_map_of:
  "distinct (map fst xs) \<Longrightarrow> find P xs = Some (k, v) \<Longrightarrow> map_of xs k = Some v"
  by (auto simp: find_Some_iff)

lemma is_quiz_for_score:
  "is_quiz_for pid (k, score_answer qd user opts) = is_quiz_for pid (k, qd)"
  by (simp add: is_quiz_for_def score_answer_def Let_def)

lemma points_score: "points (score_answer qd user opts) opts' = points qd opts'"
  by (simp add: points_def score_answer_def Let_def)

lemma score_of_score_answer:
  "\<exists>p. map_of (t_participants (score_answer qd user opts)) (str_int (u_id user)) = Some p \<and>
       t_score p = points qd opts \<and>
       t_correct p = (selected_option opts = correct_option qd)"
  by (simp add: score_answer_def Let_def map_of_map_entry map_of_ensure)

lemma handle_quiz_answer_found:
  assumes "distinct (map fst bd)" "find (is_quiz_for pid) bd = Some (key, qd)"
  shows "handle_quiz_answer bd user opts pid = AList.update key (score_answer qd user opts) bd"
  using assms find_map_of[OF assms] by (simp add: handle_quiz_answer_def)

text \<open>
  Claim C10. After any non-empty sequence of answers of one user to the poll of a timed
  quiz, the user's score in that quiz is the points of the last answer alone: 1 if it
  chose the correct option, otherwise -0.5 when negative marking is enabled (the default)
  and 0 when it is disabled.
\<close>

theorem score_is_last_answer:
  assumes "distinct (map fst bot_data)"
    and "find (is_quiz_for poll_id) bot_data = Some (quiz_key, quiz_data)"
    and "answers \<noteq> []"
  shows "\<exists>quiz_data' p.
           map_of (fold (\<lambda>option_ids bd. handle_quiz_answer bd user option_ids poll_id) answers bot_data)
             quiz_key = Some quiz_data' \<and>
           map_of (t_participants quiz_data') (str_int (u_id user)) = Some p \<and>
           t_score p = points quiz_data (last answers) \<and>
           t_score p = (if selected_option (last answers) = correct_option quiz_data then 1
                        else if negative_marking quiz_data \<noteq> Some False then - (1 / 2) else 0)"
  using assms
proof (induction answers arbitrary: bot_data quiz_data)
  case Nil
  then show ?case by simp
next
  case (Cons a as)
  let ?qd = "score_answer quiz_data user a"
  let ?bd = "AList.update quiz_key ?qd bot_data"
  have step: "handle_quiz_answer bot_data user a poll_id = ?bd"
    by (rule handle_quiz_answer_found[OF Cons.prems(1,2)])
  have d: "distinct (map fst ?bd)" using Cons.prems(1) by (rule distinct_update)
  have f: "find (is_quiz_for poll_id) ?bd = Some (quiz_key, ?qd)"
  proof (rule find_update_same[OF Cons.prems(1,2)])
    have "is_quiz_for poll_id (quiz_key, quiz_data)"
      using Cons.prems(2) by (auto simp: find_Some_iff)
    then show "is_quiz_for poll_id (quiz_key, ?qd)" by (simp add: is_quiz_for_score)
  qed
  have pts: "points qd opts = (if selected_option opts = correct_option qd then 1
                        else if negative_marking qd \<noteq> Some False then - (1 / 2) else 0)" for qd opts
    by (auto simp: points_def split: option.splits)
  show ?case
  proof (cases "as = []")
    case True
    have m: "map_of ?bd quiz_key = Some ?qd" by (simp add: update_conv')
    from score_of_score_answer[of quiz_data user a] obtain p where
      "map_of (t_participants ?qd) (str_int (u_id user)) = Some p" "t_score p = points quiz_data a"
      by blast
    then show ?thesis using True step m pts[of quiz_data a] by auto
  next
    case False
    from Cons.IH[OF d f False] obtain qd' p where
      "map_of (fold (\<lambda>option_ids bd. handle_quiz_answer bd user option_ids poll_id) as ?bd) quiz_key = Some qd'"
      "map_of (t_participants qd') (str_int (u_id user)) = Some p"
      "t_score p = points ?qd (last as)"
      by blast
    then show ?thesis
      using False step pts[of quiz_data "last as"] by (auto simp: points_score)
  qed
qed

theorem score_is_last_answer_witness:
  "distinct (map fst [(''quiz_5_1'', timed1)]) \<and>
   find (is_quiz_for 99) [(''quiz_5_1'', timed1)] = Some (''quiz_5_1'', timed1) \<and>
   [[1], [1::int]] \<noteq> [] \<and>
   (\<exists>quiz_data' p.
      map_of (fold (\<lambda>option_ids bd. handle_quiz_answer bd ux option_ids 99) [[1], [1]]
                [(''quiz_5_1'', timed1)]) ''quiz_5_1'' = Some quiz_data' \<and>
      map_of (t_participants quiz_data') ''1'' = Some p \<and> t_score p = 1)"
proof -
  have a: "distinct (map fst [(''quiz_5_1'', timed1)])" by simp
  have b: "find (is_quiz_for 99) [(''quiz_5_1'', timed1)] = Some (''quiz_5_1'', timed1)"
    by code_simp
  have c: "[[1], [1::int]] \<noteq> []" by simp
  have d: "str_int (u_id ux) = ''1''" by code_simp
  have e: "points timed1 (last [[1], [1]]) = 1" by code_simp
  show ?thesis
    using a b c score_is_last_answer[OF a b c, of ux]
    unfolding d e by blast
qed

subsection \<open>The rebuilt table and the bounds on the counters\<close>

lemma rebuild_participants_fold: "rebuild_participants polls = fold rebuild_poll polls []"
  by (simp add: rebuild_participants_def rebuild_poll_def[abs_def])

lemma tally_rebuild_entry:
  "fst (tally (rebuild_entry ps e) u) = fst (tally ps u) + (if fst e = u then 1 else 0)"
  by (cases "fst e = u")
     (simp_all add: rebuild_entry_def Let_def tally_def map_of_map_entry map_of_ensure
      map_of_ensure_other new_participant_def split: option.splits)

lemma tally_fold_entries:
  "fst (tally (fold (\<lambda>entry ps. rebuild_entry ps entry) es ps) u)
     = fst (tally ps u) + int (length (filter (\<lambda>e. fst e = u) es))"
  by (induction es arbitrary: ps) (auto simp: tally_rebuild_entry)

lemma tally_fold_polls:
  "fst (tally (fold rebuild_poll polls ps) u) = fst (tally ps u) + int (answers_of u polls)"
  by (induction polls arbitrary: ps)
     (auto simp: answers_of_def answers_by_def rebuild_poll_def tally_fold_entries)

lemma tally_rebuild:
  "fst (tally (rebuild_participants polls) u) = int (answers_of u polls)"
proof -
  have "fst (tally [] u) = 0" by (simp add: tally_def)
  then show ?thesis by (simp add: rebuild_participants_fold tally_fold_polls)
qed

lemma distinct_rebuild_entry:
  "distinct (map fst ps) \<Longrightarrow> distinct (map fst (rebuild_entry ps e))"
  by (auto simp: rebuild_entry_def Let_def init_if_absent_def intro!: distinct_map_entry distinct_update)

lemma distinct_fold_entries:
  "distinct (map fst ps) \<Longrightarrow> distinct (map fst (fold (\<lambda>entry ps. rebuild_entry ps entry) es ps))"
  by (induction es arbitrary: ps) (auto simp: distinct_rebuild_entry)

lemma distinct_rebuild: "distinct (map fst (rebuild_participants polls))"
proof -
  have "distinct (map fst ps) \<Longrightarrow> distinct (map fst (fold rebuild_poll polls ps))" for ps
    by (induction polls arbitrary: ps) (auto simp: rebuild_poll_def distinct_fold_entries)
  then show ?thesis by (simp add: rebuild_participants_fold)
qed

lemma set_update_subset: "set (AList.update k v xs) \<subseteq> insert (k, v) (set xs)"
  by (induction xs) auto

lemma set_map_entry:
  "e \<in> set (AList.map_entry k f xs) \<Longrightarrow> e \<in> set xs \<or> (\<exists>p. (k, p) \<in> set xs \<and> e = (k, f p))"
  by (induction xs) (auto split: if_splits)

lemma map_entry_twice:
  "AList.map_entry k g (AList.map_entry k f xs) = AList.map_entry k (g \<circ> f) xs"
  by (induction xs) auto

lemma all_init_if_absent:
  "\<forall>e \<in> set ps. P (snd e) \<Longrightarrow> P v \<Longrightarrow> \<forall>e \<in> set (init_if_absent k v ps). P (snd e)"
  using set_update_subset[of k v ps] by (auto simp: init_if_absent_def)

lemma all_map_entry:
  "\<forall>e \<in> set ps. P (snd e) \<Longrightarrow> (\<And>p. P p \<Longrightarrow> P (f p)) \<Longrightarrow>
   \<forall>e \<in> set (AList.map_entry k f ps). P (snd e)"
  by (auto dest!: set_map_entry)

lemma counts_ok_bump:
  assumes "\<forall>e \<in> set ps. counts_ok (snd e)"
  shows "\<forall>e \<in> set (let ps1 = init_if_absent k (new_participant nm un) ps;
                        ps2 = AList.map_entry k (\<lambda>p. p\<lparr>p_answered := p_answered p + 1\<rparr>) ps1
                    in if c then AList.map_entry k (\<lambda>p. p\<lparr>p_correct := p_correct p + 1\<rparr>) ps2
                       else ps2). counts_ok (snd e)"
proof -
  let ?ps1 = "init_if_absent k (new_participant nm un) ps"
  have 1: "\<forall>e \<in> set ?ps1. counts_ok (snd e)"
    by (rule all_init_if_absent[OF assms]) (simp add: counts_ok_def new_participant_def)
  have 2: "\<forall>e \<in> set (AList.map_entry k (\<lambda>p. p\<lparr>p_answered := p_answered p + 1\<rparr>) ?ps1). counts_ok (snd e)"
    by (rule all_map_entry[OF 1]) (simp add: counts_ok_def)
  have 3: "\<forall>e \<in> set (AList.map_entry k ((\<lambda>p. p\<lparr>p_correct := p_correct p + 1\<rparr>) \<circ>
                (\<lambda>p. p\<lparr>p_answered := p_answered p + 1\<rparr>)) ?ps1). counts_ok (snd e)"
    by (rule all_map_entry[OF 1]) (simp add: counts_ok_def)
  show ?thesis
    using 2 3 by (simp add: Let_def map_entry_twice)
qed

lemma counts_ok_rebuild_entry:
  assumes "\<forall>e \<in> set ps. counts_ok (snd e)"
  shows "\<forall>e \<in> set (rebuild_entry ps entry). counts_ok (snd e)"
  using counts_ok_bump[OF assms, of "fst entry" "a_user_name (snd entry)" "a_username (snd entry)"
      "a_is_correct (snd entry)"]
  by (simp add: rebuild_entry_def Let_def)

lemma fold_preserves:
  "(\<And>x s. I s \<Longrightarrow> I (f x s)) \<Longrightarrow> I s \<Longrightarrow> I (fold f xs s)"
  by (induction xs arbitrary: s) auto

lemma counts_ok_rebuild: "\<forall>e \<in> set (rebuild_participants polls). counts_ok (snd e)"
  unfolding rebuild_participants_def
  by (rule fold_preserves, rule fold_preserves) (simp_all add: counts_ok_rebuild_entry)

lemma answers_by_le_1:
  "distinct (map fst (pi_answers poll_info)) \<Longrightarrow> answers_by u poll_info \<le> 1"
proof -
  have "distinct (map fst xs) \<Longrightarrow> length (filter (\<lambda>e. fst e = u) xs) \<le> 1" for xs :: "(int \<times> answer_data) list"
  proof (induction xs)
    case Nil
    then show ?case by simp
  next
    case (Cons x xs)
    show ?case
    proof (cases "fst x = u")
      case True
      with Cons.prems have "u \<notin> fst ` set xs" by auto
      then have "filter (\<lambda>e. fst e = u) xs = []" by (auto simp: filter_empty_conv)
      with True show ?thesis by simp
    next
      case False
      with Cons show ?thesis by simp
    qed
  qed
  then show "distinct (map fst (pi_answers poll_info)) \<Longrightarrow> answers_by u poll_info \<le> 1"
    by (simp add: answers_by_def)
qed

lemma answers_of_le_length:
  "\<forall>poll \<in> set polls. distinct (map fst (pi_answers (snd poll))) \<Longrightarrow> answers_of u polls \<le> length polls"
proof (induction polls)
  case Nil
  then show ?case by (simp add: answers_of_def)
next
  case (Cons a polls)
  have "answers_by u (snd a) \<le> 1"
    using Cons.prems by (intro answers_by_le_1) simp
  moreover have "answers_of u polls \<le> length polls"
    using Cons by simp
  ultimately show ?case by (simp add: answers_of_def)
qed

lemma answered_bound:
  assumes "\<forall>poll \<in> set polls. distinct (map fst (pi_answers (snd poll)))"
    and "(u, p) \<in> set (rebuild_participants polls)"
  shows "p_answered p \<le> int (length polls)"
proof -
  have "map_of (rebuild_participants polls) u = Some p"
    using assms(2) distinct_rebuild by (simp add: map_of_eq_Some_iff)
  then have "p_answered p = fst (tally (rebuild_participants polls) u)"
    by (simp add: tally_def)
  also have "\<dots> = int (answers_of u polls)" by (rule tally_rebuild)
  also have "\<dots> \<le> int (length polls)" using answers_of_le_length[OF assms(1)] by simp
  finally show ?thesis .
qed

lemma length_update_present:
  "k \<in> fst ` set xs \<Longrightarrow> length (AList.update k v xs) = length xs"
  by (induction xs) auto

lemma length_update_le: "length (AList.update k v xs) \<le> Suc (length xs)"
  by (induction xs) auto

lemma counts_ok_final:
  "\<forall>e \<in> set (final_participants q). counts_ok (snd e)"
  using counts_ok_rebuild[of "sent_polls q"]
  by (auto simp: final_participants_def creator_fallback_def counts_ok_def split: option.splits)

lemma final_bounded:
  assumes "quiz_inv q" and "e \<in> set (final_participants q)"
  shows "counts_ok (snd e) \<and> p_answered (snd e) \<le> int (length (questions q))"
proof -
  obtain u p where e: "e = (u, p)" by (cases e)
  have c: "counts_ok p" using counts_ok_final[of q] assms(2) e by force
  have "p_answered p \<le> int (length (questions q))"
  proof (cases "rebuild_participants (sent_polls q) = []")
    case True
    with assms(2) e show ?thesis
      by (auto simp: final_participants_def creator_fallback_def split: option.splits if_splits)
  next
    case False
    with assms(2) e have "(u, p) \<in> set (rebuild_participants (sent_polls q))"
      by (simp add: final_participants_def creator_fallback_def)
    then have "p_answered p \<le> int (length (sent_polls q))"
      using assms(1) by (intro answered_bound) (simp_all add: quiz_inv_def)
    then show ?thesis using assms(1) by (simp add: quiz_inv_def)
  qed
  with c e show ?thesis by simp
qed

lemma quiz_inv_store_creator: "quiz_inv (store_creator upd q) = quiz_inv q"
  by (simp add: store_creator_def quiz_inv_def split: option.splits)

lemma quiz_inv_end_O:
  assumes "quiz_inv q"
  shows "quiz_inv (quiz_after (end_quiz_O upd q))"
proof (cases "active q")
  case False
  then show ?thesis using assms by (simp add: end_quiz_O_def)
next
  case True
  have "quiz_after (end_quiz_O upd q) = q\<lparr>active := False, participants := final_participants q\<rparr>"
    using True by (simp add: end_quiz_O_def Let_def split: sum.splits)
  then show ?thesis
    using assms final_bounded[OF assms] by (simp add: quiz_inv_def)
qed

lemma quiz_inv_send:
  assumes "quiz_inv q"
  shows "quiz_inv (send_next_question upd q pid)"
proof -
  let ?q = "store_creator upd q"
  have i: "quiz_inv ?q" using assms by (simp add: quiz_inv_store_creator)
  show ?thesis
  proof (cases "length (questions ?q) \<le> current_index ?q")
    case True
    then show ?thesis using quiz_inv_end_O[OF i] by (simp add: send_next_question_def Let_def)
  next
    case False
    let ?new = "\<lparr>pi_question_index = current_index ?q, pi_answers = []\<rparr>"
    have "length (AList.update pid ?new (sent_polls ?q)) \<le> Suc (current_index ?q)"
      using i length_update_le[of pid ?new "sent_polls ?q"] by (simp add: quiz_inv_def)
    moreover have "\<forall>poll \<in> set (AList.update pid ?new (sent_polls ?q)).
        distinct (map fst (pi_answers (snd poll)))"
      using i set_update_subset[of pid ?new "sent_polls ?q"] by (fastforce simp: quiz_inv_def)
    ultimately show ?thesis
      using False i by (simp add: send_next_question_def Let_def quiz_inv_def)
  qed
qed

lemma all_quizzes_update:
  "all_quizzes P w \<Longrightarrow> P q \<Longrightarrow> all_quizzes P (AList.update k (Some q) w)"
  using set_update_subset[of k "Some q" w]
  by (fastforce simp: all_quizzes_def list_all_iff)

lemma all_quizzes_D: "all_quizzes P w \<Longrightarrow> (k, Some q) \<in> set w \<Longrightarrow> P q"
  by (force simp: all_quizzes_def list_all_iff)

lemma all_inv_step: "all_quizzes quiz_inv w \<Longrightarrow> all_quizzes quiz_inv (step_O w ev)"
proof (cases ev)
  case (NextQuestion owner upd pid)
  assume a: "all_quizzes quiz_inv w"
  show ?thesis
  proof (cases "map_of w owner")
    case None
    then show ?thesis using a NextQuestion by simp
  next
    case (Some qo)
    show ?thesis
    proof (cases qo)
      case None
      then show ?thesis using a NextQuestion Some by simp
    next
      case (Some q)
      with \<open>map_of w owner = Some qo\<close> have "(owner, Some q) \<in> set w" by (auto dest: map_of_SomeD)
      then have "quiz_inv q" using a by (rule all_quizzes_D[rotated])
      then show ?thesis
        using a NextQuestion Some \<open>map_of w owner = Some qo\<close>
        by (simp add: all_quizzes_update quiz_inv_send)
    qed
  qed
next
  case (Incoming update)
  assume "all_quizzes quiz_inv w"
  then show ?thesis using Incoming by (simp add: on_update_O)
qed

lemma all_inv_run: "all_quizzes quiz_inv w \<Longrightarrow> all_quizzes quiz_inv (run_O w evs)"
  unfolding run_O_def by (rule fold_preserves) (simp_all add: all_inv_step)

lemma fresh_inv: "fresh q \<Longrightarrow> quiz_inv q"
  by (simp add: fresh_def quiz_inv_def)

lemma start_quiz_fresh: "start_quiz bank args eu draws = Inr (Some q) \<Longrightarrow> fresh q"
  by (auto simp: start_quiz_def fresh_def split: if_splits sum.splits)

text \<open>
  Claim C7. Start from quizzes as \<^verbatim>\<open>start_quiz\<close> stores them and let the bot of
  \<^verbatim>\<open>Original.py\<close> run: any sequence of dispatches of questions (the dispatch after the
  last question ends the quiz and compiles the results) and of incoming updates about
  polls. At every point, every entry of the table of participants of every quiz has
  \<open>0 \<le> correct \<le> answered \<le> number of questions\<close>; and so has every entry of the table
  that \<^verbatim>\<open>end_quiz\<close> would rebuild and rank at that point. (The table of a quiz is
  empty until \<^verbatim>\<open>end_quiz\<close> writes the rebuilt one: no call of \<^verbatim>\<open>poll_answer\<close> made by
  the running bot gets as far as its counters.)
\<close>

theorem score_bounds:
  assumes "all_quizzes fresh w0"
    and "(owner, Some quiz) \<in> set (run_O w0 events)"
  shows "((user_id, p) \<in> set (participants quiz) \<longrightarrow>
            0 \<le> p_correct p \<and> p_correct p \<le> p_answered p \<and>
            p_answered p \<le> int (length (questions quiz))) \<and>
         ((user_id, p) \<in> set (final_participants quiz) \<longrightarrow>
            0 \<le> p_correct p \<and> p_correct p \<le> p_answered p \<and>
            p_answered p \<le> int (length (questions quiz)))"
proof -
  have "all_quizzes quiz_inv w0"
    using assms(1) by (auto simp: all_quizzes_def list_all_iff fresh_inv split: option.splits)
  then have "all_quizzes quiz_inv (run_O w0 events)" by (rule all_inv_run)
  then have inv: "quiz_inv quiz" using assms(2) by (rule all_quizzes_D)
  have live: "0 \<le> p_correct p \<and> p_correct p \<le> p_answered p \<and>
              p_answered p \<le> int (length (questions quiz))"
    if "(user_id, p) \<in> set (participants quiz)"
    using inv that by (force simp: quiz_inv_def counts_ok_def)
  have fin: "0 \<le> p_correct p \<and> p_correct p \<le> p_answered p \<and>
             p_answered p \<le> int (length (questions quiz))"
    if "(user_id, p) \<in> set (final_participants quiz)"
    using final_bounded[OF inv that] by (simp add: counts_ok_def)
  show ?thesis using live fin by blast
qed

theorem score_bounds_witness:
  "all_quizzes fresh [(7, Some (new_quiz (take 1 bank3)))] \<and>
   (7, Some ended_quiz) \<in> set (run_O [(7, Some (new_quiz (take 1 bank3)))]
                                  (dup_events @ [NextQuestion 7 upd_x ''p2''])) \<and>
   participants ended_quiz =
     [(7, \<lparr>p_name = ''Zed'', p_username = None, p_correct = 1, p_answered = 1,
            p_negative_points = None\<rparr>)] \<and>
   final_participants ended_quiz = participants ended_quiz \<and>
   length (questions ended_quiz) = 1 \<and>
   p_correct (snd (hd (participants ended_quiz))) \<le> p_answered (snd (hd (participants ended_quiz))) \<and>
   p_answered (snd (hd (participants ended_quiz))) \<le> int (length (questions ended_quiz))"
proof -
  have a: "all_quizzes fresh [(7, Some (new_quiz (take 1 bank3)))]" by code_simp
  have b: "(7, Some ended_quiz) \<in> set (run_O [(7, Some (new_quiz (take 1 bank3)))]
                                  (dup_events @ [NextQuestion 7 upd_x ''p2'']))"
    by code_simp
  have c: "participants ended_quiz =
     [(7, \<lparr>p_name = ''Zed'', p_username = None, p_correct = 1, p_answered = 1,
            p_negative_points = None\<rparr>)]" by code_simp
  have d: "final_participants ended_quiz = participants ended_quiz" by code_simp
  have e: "length (questions ended_quiz) = 1" by code_simp
  have m: "(7, snd (hd (participants ended_quiz))) \<in> set (participants ended_quiz)"
    by code_simp
  show ?thesis
    using a b c d e m score_bounds[OF a b, of 7 "snd (hd (participants ended_quiz))"]
    by simp
qed

end
